theory Spec2Isabelle
  imports Main "HOL-Library.Word"
begin

unbundle bit_operations_syntax

section \<open>Python values, dictionaries and exceptions\<close>

text \<open>
  The Python exceptions that the modelled code can raise or catch. A function that can
  raise returns \<open>py_error + 'a\<close>, with \<open>Inl\<close> for the raised exception.
\<close>

datatype py_error = ValueError | TypeError | KeyError | AttributeError | ImportError

text \<open>
  The Python values that travel through the modelled code as arguments, keyword
  arguments and parsed JSON: \<open>None\<close>, booleans, integers, strings, lists and dictionaries
  with string keys, and objects of other classes (bytes, an exception, an instance of a
  user class), each given by the results of its \<open>__str__\<close> and \<open>__repr__\<close>; such an
  object is hashable, is not an integer, and \<open>json.dumps\<close> does not serialize it. A
  string is a list of 8-bit characters, each standing for the code point of the same
  number. A dictionary is an association list in insertion order with distinct keys.
  Floating-point numbers are outside the model, and so are the limits of the interpreter
  (memory, the recursion depth that a deeply nested value exhausts, the number of digits
  above which it refuses to convert an integer to a string).
\<close>

datatype pyval =
    PyNone
  | PyBool bool
  | PyInt int
  | PyStr string
  | PyList "pyval list"
  | PyDict "(string \<times> pyval) list"
  | PyObject string string

text \<open>Sequencing of calls that can raise: the first exception raised is the result.\<close>

definition bind_err :: "py_error + 'a \<Rightarrow> ('a \<Rightarrow> py_error + 'b) \<Rightarrow> py_error + 'b" where
  "bind_err r f = (case r of Inl e \<Rightarrow> Inl e | Inr x \<Rightarrow> f x)"

text \<open>The results of a list of calls made in order, or the first exception raised.\<close>

fun all_ok :: "(py_error + 'a) list \<Rightarrow> py_error + 'a list" where
  "all_ok [] = Inr []"
| "all_ok (Inl e # rs) = Inl e"
| "all_ok (Inr x # rs) = (case all_ok rs of Inl e \<Rightarrow> Inl e | Inr xs \<Rightarrow> Inr (x # xs))"

text \<open>\<open>d[k] = v\<close> on an insertion-ordered dictionary: an existing key keeps its place.\<close>

fun dict_setitem :: "'k \<Rightarrow> 'v \<Rightarrow> ('k \<times> 'v) list \<Rightarrow> ('k \<times> 'v) list" where
  "dict_setitem k v [] = [(k, v)]"
| "dict_setitem k v (p # ps) = (if fst p = k then (k, v) # ps else p # dict_setitem k v ps)"

text \<open>\<open>d.update(other)\<close>: the items of \<open>other\<close> are assigned in their order.\<close>

fun dict_update :: "('k \<times> 'v) list \<Rightarrow> ('k \<times> 'v) list \<Rightarrow> ('k \<times> 'v) list" where
  "dict_update d [] = d"
| "dict_update d (p # ps) = dict_update (dict_setitem (fst p) (snd p) d) ps"

text \<open>\<open>d.get(k, default)\<close>.\<close>

definition dict_get :: "('k \<times> 'v) list \<Rightarrow> 'k \<Rightarrow> 'v \<Rightarrow> 'v" where
  "dict_get d k dflt = (case map_of d k of Some v \<Rightarrow> v | None \<Rightarrow> dflt)"

section \<open>Python's \<open>str\<close>, \<open>repr\<close> and \<open>json.dumps\<close>\<close>

text \<open>\<open>sep.join(xs)\<close>.\<close>

fun join :: "string \<Rightarrow> string list \<Rightarrow> string" where
  "join sep [] = []"
| "join sep [x] = x"
| "join sep (x # y # ys) = x @ sep @ join sep (y # ys)"

definition hex_digit :: "nat \<Rightarrow> char" where
  "hex_digit n = ''0123456789abcdef'' ! (n mod 16)"

text \<open>The decimal digits of a natural number, most significant first.\<close>

function nat_digits :: "nat \<Rightarrow> string" where
  "nat_digits n =
     (if n < 10 then [char_of (48 + n)] else nat_digits (n div 10) @ [char_of (48 + n mod 10)])"
  by pat_completeness auto
termination
  by (relation "measure id") auto

declare nat_digits.simps [simp del]

definition int_str :: "int \<Rightarrow> string" where
  "int_str i = (if i < 0 then CHR ''-'' # nat_digits (nat (- i)) else nat_digits (nat i))"

text \<open>
  \<open>repr\<close> of a string: single quotes, unless the string has a single quote and no double
  quote; the quote character and the backslash are escaped, tab, newline and carriage
  return are written \<open>\t\<close>, \<open>\n\<close>, \<open>\r\<close>, and every other non-printable character
  \<open>\xhh\<close>. Below 256 the non-printable code points are the controls (0 to 31, 127 to
  159), the no-break space 160 and the soft hyphen 173.
\<close>

definition repr_quote :: "string \<Rightarrow> char" where
  "repr_quote s = (if CHR 0x27 \<in> set s \<and> CHR 0x22 \<notin> set s then CHR 0x22 else CHR 0x27)"

definition printable :: "nat \<Rightarrow> bool" where
  "printable n \<longleftrightarrow> 32 \<le> n \<and> \<not> (127 \<le> n \<and> n \<le> 160) \<and> n \<noteq> 173"

definition repr_char :: "char \<Rightarrow> char \<Rightarrow> string" where
  "repr_char q c =
     (let n = (of_char c :: nat) in
      if c = q \<or> c = CHR 0x5C then [CHR 0x5C, c]
      else if n = 9 then [CHR 0x5C, CHR ''t'']
      else if n = 10 then [CHR 0x5C, CHR ''n'']
      else if n = 13 then [CHR 0x5C, CHR ''r'']
      else if printable n then [c]
      else [CHR 0x5C, CHR ''x'', hex_digit (n div 16), hex_digit (n mod 16)])"

definition repr_str :: "string \<Rightarrow> string" where
  "repr_str s = (let q = repr_quote s in q # concat (map (repr_char q) s) @ [q])"

fun py_repr :: "pyval \<Rightarrow> string" where
  "py_repr PyNone = ''None''"
| "py_repr (PyBool b) = (if b then ''True'' else ''False'')"
| "py_repr (PyInt i) = int_str i"
| "py_repr (PyStr s) = repr_str s"
| "py_repr (PyList xs) = ''['' @ join '', '' (map py_repr xs) @ '']''"
| "py_repr (PyDict kvs) =
     ''{'' @ join '', '' (map (\<lambda>p. repr_str (fst p) @ '': '' @ py_repr (snd p)) kvs) @ ''}''"
| "py_repr (PyObject s r) = r"

text \<open>\<open>str(v)\<close>, which is also what \<open>"{}".format(v)\<close> and an f-string field give.\<close>

fun py_str :: "pyval \<Rightarrow> string" where
  "py_str (PyStr s) = s"
| "py_str (PyObject s r) = s"
| "py_str v = py_repr v"

text \<open>
  \<open>json.dumps\<close> with its defaults (\<open>ensure_ascii=True\<close>, separators \<open>", "\<close> and
  \<open>": "\<close>, keys in insertion order). In a string, the double quote, the backslash and
  the named controls get their two-character escapes, a character from the space to the
  tilde stands for itself, and any other is written \<open>\u00hh\<close>. An object of a class
  that the encoder does not know makes it raise \<open>TypeError\<close>.
\<close>

definition json_char :: "char \<Rightarrow> string" where
  "json_char c =
     (let n = (of_char c :: nat) in
      if c = CHR 0x22 then [CHR 0x5C, CHR 0x22]
      else if c = CHR 0x5C then [CHR 0x5C, CHR 0x5C]
      else if n = 10 then [CHR 0x5C, CHR ''n'']
      else if n = 13 then [CHR 0x5C, CHR ''r'']
      else if n = 9 then [CHR 0x5C, CHR ''t'']
      else if n = 8 then [CHR 0x5C, CHR ''b'']
      else if n = 12 then [CHR 0x5C, CHR ''f'']
      else if 32 \<le> n \<and> n \<le> 126 then [c]
      else [CHR 0x5C, CHR ''u'', CHR ''0'', CHR ''0'', hex_digit (n div 16), hex_digit (n mod 16)])"

definition json_string :: "string \<Rightarrow> string" where
  "json_string s = CHR 0x22 # concat (map json_char s) @ [CHR 0x22]"

fun json_dumps :: "pyval \<Rightarrow> py_error + string" where
  "json_dumps PyNone = Inr ''null''"
| "json_dumps (PyBool b) = Inr (if b then ''true'' else ''false'')"
| "json_dumps (PyInt i) = Inr (int_str i)"
| "json_dumps (PyStr s) = Inr (json_string s)"
| "json_dumps (PyList xs) =
     (case all_ok (map json_dumps xs) of
        Inl e \<Rightarrow> Inl e
      | Inr ss \<Rightarrow> Inr (''['' @ join '', '' ss @ '']''))"
| "json_dumps (PyDict kvs) =
     (case all_ok (map (\<lambda>p. case json_dumps (snd p) of
                                Inl e \<Rightarrow> Inl e
                              | Inr s \<Rightarrow> Inr (json_string (fst p) @ '': '' @ s)) kvs) of
        Inl e \<Rightarrow> Inl e
      | Inr ss \<Rightarrow> Inr (''{'' @ join '', '' ss @ ''}''))"
| "json_dumps (PyObject s r) = Inl TypeError"

section \<open>The error-code enumeration of \<open>mlflow.protos.databricks_pb2\<close>\<close>

text \<open>
  The generated module \<open>databricks_pb2\<close> is a parameter of the development: its
  enumeration \<open>ErrorCode\<close> is given by the list of its members, each a name and a number.
  The number of a protobuf enumeration member is a signed 32-bit integer: a \<open>32 word\<close>,
  read with \<open>sint\<close>.
\<close>

type_synonym enum_desc = "(string \<times> 32 word) list"

text \<open>The members that \<open>mlflow/exceptions.py\<close> imports as module-level integer constants.\<close>

definition imported_names :: "string list" where
  "imported_names =
    [''ABORTED'', ''ALREADY_EXISTS'', ''BAD_REQUEST'', ''CANCELLED'',
     ''CUSTOMER_UNAUTHORIZED'', ''DATA_LOSS'', ''DEADLINE_EXCEEDED'',
     ''ENDPOINT_NOT_FOUND'', ''INTERNAL_ERROR'', ''INVALID_PARAMETER_VALUE'',
     ''INVALID_STATE'', ''NOT_FOUND'', ''NOT_IMPLEMENTED'', ''PERMISSION_DENIED'',
     ''REQUEST_LIMIT_EXCEEDED'', ''RESOURCE_ALREADY_EXISTS'', ''RESOURCE_CONFLICT'',
     ''RESOURCE_DOES_NOT_EXIST'', ''RESOURCE_EXHAUSTED'', ''TEMPORARILY_UNAVAILABLE'',
     ''UNAUTHENTICATED'']"

text \<open>
  A well-formed enumeration: no two members share a name or a number (protobuf without
  \<open>allow_alias\<close>), and every imported name is a member.
\<close>

definition pb2_ok :: "enum_desc \<Rightarrow> bool" where
  "pb2_ok E \<longleftrightarrow>
     distinct (map fst E) \<and> distinct (map snd E) \<and> list_all (\<lambda>n. n \<in> set (map fst E)) imported_names"

text \<open>\<open>from mlflow.protos.databricks_pb2 import NAME\<close>: the number of the member.\<close>

definition pb2_import :: "enum_desc \<Rightarrow> string \<Rightarrow> py_error + int" where
  "pb2_import E name = (case map_of E name of Some n \<Rightarrow> Inr (sint n) | None \<Rightarrow> Inl ImportError)"

text \<open>
  The number a Python value stands for as a key of a dictionary keyed by integers:
  \<open>True\<close> and \<open>False\<close> hash and compare as 1 and 0.
\<close>

fun int_key :: "pyval \<Rightarrow> int option" where
  "int_key (PyInt n) = Some n"
| "int_key (PyBool b) = Some (if b then 1 else 0)"
| "int_key _ = None"

text \<open>
  The number that protobuf's C runtime looks up for an integer key: the key is converted
  with \<open>PyLong_AsLong\<close>, which fails outside the range of a 64-bit \<open>long\<close>, and the \<open>long\<close>
  is passed as a 32-bit \<open>int\<close>, which keeps its low 32 bits. So \<open>2**32 + 11\<close> is looked
  up as 11.
\<close>

definition c_long_to_int :: "int \<Rightarrow> 32 word option" where
  "c_long_to_int n =
     (if - 9223372036854775808 \<le> n \<and> n < 9223372036854775808 then Some (word_of_int n)
      else None)"

text \<open>
  \<open>ErrorCode.Name(number)\<close> of protobuf's enum wrapper: the name of the member that the
  runtime finds for the number; \<open>ValueError\<close> for an integer for which it finds none,
  \<open>TypeError\<close> for an argument that is not an integer.
\<close>

definition ErrorCode_Name :: "enum_desc \<Rightarrow> pyval \<Rightarrow> py_error + string" where
  "ErrorCode_Name E number =
     (case int_key number of
        None \<Rightarrow> Inl TypeError
      | Some n \<Rightarrow>
          (case c_long_to_int n of
             None \<Rightarrow> Inl ValueError
           | Some w \<Rightarrow> (case find (\<lambda>p. snd p = w) E of
                         Some p \<Rightarrow> Inr (fst p)
                       | None \<Rightarrow> Inl ValueError)))"

text \<open>
  \<open>ErrorCode.Value(name)\<close>: the number of the member with that name; \<open>ValueError\<close> when
  no member has it; \<open>TypeError\<close> for an unhashable argument (a list or a dictionary).
\<close>

fun ErrorCode_Value :: "enum_desc \<Rightarrow> pyval \<Rightarrow> py_error + int" where
  "ErrorCode_Value E (PyStr name) =
     (case map_of E name of Some n \<Rightarrow> Inr (sint n) | None \<Rightarrow> Inl ValueError)"
| "ErrorCode_Value E (PyList xs) = Inl TypeError"
| "ErrorCode_Value E (PyDict kvs) = Inl TypeError"
| "ErrorCode_Value E v = Inl ValueError"

section \<open>\<open>mlflow/exceptions.py\<close>\<close>

text \<open>
  The module-level table, with each key \<open>ErrorCode.Name(X)\<close> written as the string \<open>X\<close>,
  which it is for an imported member \<open>X\<close> (lemma \<open>Name_of_imported\<close> below).
\<close>

definition ERROR_CODE_TO_HTTP_STATUS :: "(string \<times> int) list" where
  "ERROR_CODE_TO_HTTP_STATUS =
    [(''INTERNAL_ERROR'', 500),
     (''INVALID_STATE'', 500),
     (''DATA_LOSS'', 500),
     (''NOT_IMPLEMENTED'', 501),
     (''TEMPORARILY_UNAVAILABLE'', 503),
     (''DEADLINE_EXCEEDED'', 504),
     (''REQUEST_LIMIT_EXCEEDED'', 429),
     (''CANCELLED'', 499),
     (''RESOURCE_EXHAUSTED'', 429),
     (''ABORTED'', 409),
     (''RESOURCE_CONFLICT'', 409),
     (''ALREADY_EXISTS'', 409),
     (''NOT_FOUND'', 404),
     (''ENDPOINT_NOT_FOUND'', 404),
     (''RESOURCE_DOES_NOT_EXIST'', 404),
     (''PERMISSION_DENIED'', 403),
     (''CUSTOMER_UNAUTHORIZED'', 401),
     (''UNAUTHENTICATED'', 401),
     (''BAD_REQUEST'', 400),
     (''RESOURCE_ALREADY_EXISTS'', 400),
     (''INVALID_PARAMETER_VALUE'', 400)]"

text \<open>
  \<open>HTTP_STATUS_TO_ERROR_CODE\<close>: the dictionary comprehension \<open>{v: k for k, v in items}\<close>
  assigns \<open>d[v] = k\<close> item by item, so the last name of a status stays; the three
  assignments that follow fix the names of 400, 404 and 500. The construction is given
  for any list of items, and the table is its value at the items of
  \<open>ERROR_CODE_TO_HTTP_STATUS\<close>.
\<close>

fun invert_items :: "('k \<times> 'v) list \<Rightarrow> ('v \<times> 'k) list \<Rightarrow> ('v \<times> 'k) list" where
  "invert_items [] d = d"
| "invert_items (p # ps) d = invert_items ps (dict_setitem (snd p) (fst p) d)"

definition HTTP_STATUS_TO_ERROR_CODE_from :: "(string \<times> int) list \<Rightarrow> (int \<times> string) list" where
  "HTTP_STATUS_TO_ERROR_CODE_from items =
     dict_setitem 500 ''INTERNAL_ERROR''
       (dict_setitem 404 ''ENDPOINT_NOT_FOUND''
         (dict_setitem 400 ''BAD_REQUEST'' (invert_items items [])))"

definition HTTP_STATUS_TO_ERROR_CODE :: "(int \<times> string) list" where
  "HTTP_STATUS_TO_ERROR_CODE = HTTP_STATUS_TO_ERROR_CODE_from ERROR_CODE_TO_HTTP_STATUS"

text \<open>The expression \<open>ErrorCode.Name(X)\<close> for an imported constant \<open>X\<close>.\<close>

definition Name_of_constant :: "enum_desc \<Rightarrow> string \<Rightarrow> py_error + string" where
  "Name_of_constant E X = bind_err (pb2_import E X) (\<lambda>n. ErrorCode_Name E (PyInt n))"

definition Name_INTERNAL_ERROR :: "enum_desc \<Rightarrow> py_error + string" where
  "Name_INTERNAL_ERROR E = Name_of_constant E ''INTERNAL_ERROR''"

text \<open>
  The dictionary display \<open>{ErrorCode.Name(X): status, ...}\<close> as the module evaluates it:
  entry by entry, each key computed and assigned. For a well-formed enumeration the
  result is \<open>ERROR_CODE_TO_HTTP_STATUS\<close> (lemma \<open>module_table\<close> below).
\<close>

fun dict_display ::
    "enum_desc \<Rightarrow> (string \<times> int) list \<Rightarrow> (string \<times> int) list \<Rightarrow> py_error + (string \<times> int) list" where
  "dict_display E [] d = Inr d"
| "dict_display E (p # ps) d =
     bind_err (Name_of_constant E (fst p)) (\<lambda>k. dict_display E ps (dict_setitem k (snd p) d))"

definition get_error_code :: "enum_desc \<Rightarrow> int \<Rightarrow> py_error + int" where
  "get_error_code E http_status =
     bind_err (Name_INTERNAL_ERROR E)
       (\<lambda>dflt. ErrorCode_Value E (PyStr (dict_get HTTP_STATUS_TO_ERROR_CODE http_status dflt)))"

text \<open>The exception object: the three attributes that \<open>__init__\<close> sets.\<close>

record MlflowException =
  error_code :: string
  message :: string
  json_kwargs :: "(string \<times> pyval) list"

text \<open>
  The body of \<open>MlflowException.__init__\<close>, on the values bound to \<open>message\<close>,
  \<open>error_code\<close> and \<open>kwargs\<close>: a \<open>ValueError\<close> or \<open>TypeError\<close> of
  \<open>ErrorCode.Name(error_code)\<close> is caught and the name of \<open>INTERNAL_ERROR\<close> taken instead.
\<close>

definition MlflowException_init_body ::
    "enum_desc \<Rightarrow> pyval \<Rightarrow> pyval \<Rightarrow> (string \<times> pyval) list \<Rightarrow> py_error + MlflowException" where
  "MlflowException_init_body E msg code kwargs =
     bind_err
       (case ErrorCode_Name E code of
          Inl ValueError \<Rightarrow> Name_INTERNAL_ERROR E
        | Inl TypeError \<Rightarrow> Name_INTERNAL_ERROR E
        | r \<Rightarrow> r)
       (\<lambda>name. Inr \<lparr>error_code = name, message = py_str msg, json_kwargs = kwargs\<rparr>)"

text \<open>
  The binding of a call \<open>MlflowException(*args, **kws)\<close> to the parameters
  \<open>(self, message, error_code=INTERNAL_ERROR, **kwargs)\<close>. The call raises \<open>TypeError\<close>
  before the body runs when a keyword is repeated or is \<open>self\<close>, when \<open>message\<close> is
  missing, when there are more than two positional arguments, and when \<open>message\<close> or
  \<open>error_code\<close> is given both by position and by keyword. A keyword \<open>message\<close> or
  \<open>error_code\<close> is the parameter of that name, so \<open>kwargs\<close> never has these keys.
\<close>

definition code_argument :: "enum_desc \<Rightarrow> (string \<times> pyval) list \<Rightarrow> py_error + pyval" where
  "code_argument E kws =
     (case map_of kws ''error_code'' of
        Some c \<Rightarrow> Inr c
      | None \<Rightarrow> bind_err (pb2_import E ''INTERNAL_ERROR'') (\<lambda>n. Inr (PyInt n)))"

fun bind_arguments ::
    "enum_desc \<Rightarrow> pyval list \<Rightarrow> (string \<times> pyval) list \<Rightarrow> py_error + pyval \<times> pyval" where
  "bind_arguments E [] kws =
     (case map_of kws ''message'' of
        None \<Rightarrow> Inl TypeError
      | Some m \<Rightarrow> bind_err (code_argument E kws) (\<lambda>c. Inr (m, c)))"
| "bind_arguments E [m] kws =
     (if ''message'' \<in> set (map fst kws) then Inl TypeError
      else bind_err (code_argument E kws) (\<lambda>c. Inr (m, c)))"
| "bind_arguments E [m, c] kws =
     (if ''message'' \<in> set (map fst kws) \<or> ''error_code'' \<in> set (map fst kws) then Inl TypeError
      else Inr (m, c))"
| "bind_arguments E (m # c # x # xs) kws = Inl TypeError"

definition extra_keywords :: "(string \<times> pyval) list \<Rightarrow> (string \<times> pyval) list" where
  "extra_keywords kws = filter (\<lambda>p. fst p \<noteq> ''message'' \<and> fst p \<noteq> ''error_code'') kws"

definition MlflowException_init ::
    "enum_desc \<Rightarrow> pyval list \<Rightarrow> (string \<times> pyval) list \<Rightarrow> py_error + MlflowException" where
  "MlflowException_init E args kws =
     (if \<not> distinct (map fst kws) \<or> ''self'' \<in> set (map fst kws) then Inl TypeError
      else bind_err (bind_arguments E args kws)
             (\<lambda>mc. MlflowException_init_body E (fst mc) (snd mc) (extra_keywords kws)))"

text \<open>
  The dictionary that \<open>serialize_as_json\<close> builds, and its rendering, which raises
  \<open>TypeError\<close> when \<open>json.dumps\<close> does.
\<close>

definition exception_dict :: "'a MlflowException_scheme \<Rightarrow> (string \<times> pyval) list" where
  "exception_dict self =
     dict_update [(''error_code'', PyStr (error_code self)), (''message'', PyStr (message self))]
       (json_kwargs self)"

definition serialize_as_json :: "'a MlflowException_scheme \<Rightarrow> py_error + string" where
  "serialize_as_json self = json_dumps (PyDict (exception_dict self))"

definition get_http_status_code :: "'a MlflowException_scheme \<Rightarrow> int" where
  "get_http_status_code self = dict_get ERROR_CODE_TO_HTTP_STATUS (error_code self) 500"

text \<open>
  The class method \<open>MlflowException.invalid_parameter_value(cls, message, **kwargs)\<close>,
  called with positional arguments \<open>args\<close> and keywords \<open>kws\<close>: its own binding, then the
  call \<open>cls(message, error_code=INVALID_PARAMETER_VALUE, **kwargs)\<close>, which raises
  \<open>TypeError\<close> when \<open>kwargs\<close> has the key \<open>error_code\<close>.
\<close>

fun bind_message ::
    "pyval list \<Rightarrow> (string \<times> pyval) list \<Rightarrow> py_error + pyval \<times> (string \<times> pyval) list" where
  "bind_message [] kws =
     (case map_of kws ''message'' of
        None \<Rightarrow> Inl TypeError
      | Some m \<Rightarrow> Inr (m, filter (\<lambda>p. fst p \<noteq> ''message'') kws))"
| "bind_message [m] kws =
     (if ''message'' \<in> set (map fst kws) then Inl TypeError else Inr (m, kws))"
| "bind_message (m # x # xs) kws = Inl TypeError"

definition invalid_parameter_value ::
    "enum_desc \<Rightarrow> pyval list \<Rightarrow> (string \<times> pyval) list \<Rightarrow> py_error + MlflowException" where
  "invalid_parameter_value E args kws =
     (if \<not> distinct (map fst kws) \<or> ''cls'' \<in> set (map fst kws) then Inl TypeError
      else bind_err (bind_message args kws)
             (\<lambda>mk. bind_err (pb2_import E ''INVALID_PARAMETER_VALUE'')
                (\<lambda>n. MlflowException_init E [fst mk] ((''error_code'', PyInt n) # snd mk))))"

text \<open>
  \<open>RestException\<close> adds the attribute \<open>json\<close>. Its constructor returns the exception
  (or the error that escapes it) together with the warnings it logs.
\<close>

record RestException = MlflowException +
  json :: "(string \<times> pyval) list"

definition unrecognized_warning :: "pyval \<Rightarrow> string" where
  "unrecognized_warning code =
     ''Received error code not recognized by MLflow: '' @ py_str code @
     '', this may indicate your request hits error outside the MLflow server, e.g., proxy server, IP blocker or so.''"

definition rest_message :: "pyval \<Rightarrow> (string \<times> pyval) list \<Rightarrow> string" where
  "rest_message code js =
     py_str code @ '': '' @
     (case map_of js ''message'' of
        Some m \<Rightarrow> py_str m
      | None \<Rightarrow> ''Response: '' @ py_str (PyDict js))"

definition RestException_init ::
    "enum_desc \<Rightarrow> (string \<times> pyval) list \<Rightarrow> (py_error + RestException) \<times> string list" where
  "RestException_init E js =
     (case Name_INTERNAL_ERROR E of
        Inl e \<Rightarrow> (Inl e, [])
      | Inr dflt \<Rightarrow>
          (let code = dict_get js ''error_code'' (PyStr dflt);
               msg = rest_message code js;
               attempt = bind_err (ErrorCode_Value E code)
                           (\<lambda>n. MlflowException_init E [PyStr msg] [(''error_code'', PyInt n)]);
               (base, logged) =
                 (case attempt of
                    Inl ValueError \<Rightarrow>
                      (MlflowException_init E [PyStr msg] [], [unrecognized_warning code])
                  | r \<Rightarrow> (r, []))
           in (bind_err base (\<lambda>b. Inr (MlflowException.extend b \<lparr>json = js\<rparr>)), logged)))"

text \<open>\<open>_UnsupportedMultipartUploadException.__init__\<close>.\<close>

definition MESSAGE :: string where
  "MESSAGE = ''Multipart upload is not supported for the current artifact repository''"

definition UnsupportedMultipartUploadException_init :: "enum_desc \<Rightarrow> py_error + MlflowException" where
  "UnsupportedMultipartUploadException_init E =
     bind_err (pb2_import E ''NOT_IMPLEMENTED'')
       (\<lambda>n. MlflowException_init E [PyStr MESSAGE] [(''error_code'', PyInt n)])"

text \<open>
  An instance of the enumeration, for evaluating the functions above: the imported
  members with the numbers they have in MLflow's \<open>databricks.proto\<close>. No theorem depends
  on the numbers beyond \<open>pb2_ok\<close>.
\<close>

definition ErrorCode_sample :: enum_desc where
  "ErrorCode_sample =
    [(''INTERNAL_ERROR'', 1), (''TEMPORARILY_UNAVAILABLE'', 2), (''BAD_REQUEST'', 4),
     (''DEADLINE_EXCEEDED'', 7), (''CANCELLED'', 8), (''RESOURCE_EXHAUSTED'', 9),
     (''ABORTED'', 10), (''NOT_FOUND'', 11), (''ALREADY_EXISTS'', 12),
     (''UNAUTHENTICATED'', 13), (''INVALID_PARAMETER_VALUE'', 1000),
     (''ENDPOINT_NOT_FOUND'', 1001), (''INVALID_STATE'', 1003),
     (''PERMISSION_DENIED'', 1004), (''CUSTOMER_UNAUTHORIZED'', 1006),
     (''REQUEST_LIMIT_EXCEEDED'', 1007), (''RESOURCE_CONFLICT'', 1008),
     (''NOT_IMPLEMENTED'', 1010), (''DATA_LOSS'', 1011),
     (''RESOURCE_ALREADY_EXISTS'', 3001), (''RESOURCE_DOES_NOT_EXIST'', 3002)]"

section \<open>\<open>hashlib.md5\<close>\<close>

text \<open>
  MD5 as in RFC 1321, on lists of bytes: the message is padded with the byte 128, zero
  bytes up to 56 modulo 64 and its length in bits as 8 little-endian bytes, and each
  block of 64 bytes goes through 64 steps on a state of four 32-bit words.
\<close>

type_synonym md5_state = "32 word \<times> 32 word \<times> 32 word \<times> 32 word"

definition md5_K :: "32 word list" where
  "md5_K =
    [0xd76aa478, 0xe8c7b756, 0x242070db, 0xc1bdceee,
     0xf57c0faf, 0x4787c62a, 0xa8304613, 0xfd469501,
     0x698098d8, 0x8b44f7af, 0xffff5bb1, 0x895cd7be,
     0x6b901122, 0xfd987193, 0xa679438e, 0x49b40821,
     0xf61e2562, 0xc040b340, 0x265e5a51, 0xe9b6c7aa,
     0xd62f105d, 0x02441453, 0xd8a1e681, 0xe7d3fbc8,
     0x21e1cde6, 0xc33707d6, 0xf4d50d87, 0x455a14ed,
     0xa9e3e905, 0xfcefa3f8, 0x676f02d9, 0x8d2a4c8a,
     0xfffa3942, 0x8771f681, 0x6d9d6122, 0xfde5380c,
     0xa4beea44, 0x4bdecfa9, 0xf6bb4b60, 0xbebfbc70,
     0x289b7ec6, 0xeaa127fa, 0xd4ef3085, 0x04881d05,
     0xd9d4d039, 0xe6db99e5, 0x1fa27cf8, 0xc4ac5665,
     0xf4292244, 0x432aff97, 0xab9423a7, 0xfc93a039,
     0x655b59c3, 0x8f0ccc92, 0xffeff47d, 0x85845dd1,
     0x6fa87e4f, 0xfe2ce6e0, 0xa3014314, 0x4e0811a1,
     0xf7537e82, 0xbd3af235, 0x2ad7d2bb, 0xeb86d391]"

definition md5_s :: "nat list" where
  "md5_s =
    [7, 12, 17, 22, 7, 12, 17, 22, 7, 12, 17, 22, 7, 12, 17, 22,
     5, 9, 14, 20, 5, 9, 14, 20, 5, 9, 14, 20, 5, 9, 14, 20,
     4, 11, 16, 23, 4, 11, 16, 23, 4, 11, 16, 23, 4, 11, 16, 23,
     6, 10, 15, 21, 6, 10, 15, 21, 6, 10, 15, 21, 6, 10, 15, 21]"

text \<open>Rotation of a 32-bit word to the left by \<open>n\<close> bits, \<open>0 < n < 32\<close>.\<close>

definition rotate_left :: "32 word \<Rightarrow> nat \<Rightarrow> 32 word" where
  "rotate_left x n = push_bit n x OR drop_bit (32 - n) x"

text \<open>A 32-bit word from four bytes, least significant first, and back.\<close>

definition word_le :: "8 word list \<Rightarrow> 32 word" where
  "word_le bs = foldr (\<lambda>b w. ucast b OR push_bit 8 w) bs 0"

definition bytes_le :: "32 word \<Rightarrow> 8 word list" where
  "bytes_le w = [ucast w, ucast (drop_bit 8 w), ucast (drop_bit 16 w), ucast (drop_bit 24 w)]"

text \<open>The consecutive blocks of \<open>n\<close> elements of a list (the last one may be shorter).\<close>

function chunks :: "nat \<Rightarrow> 'a list \<Rightarrow> 'a list list" where
  "chunks n xs = (if n = 0 \<or> xs = [] then [] else take n xs # chunks n (drop n xs))"
  by pat_completeness auto
termination
  by (relation "measure (\<lambda>(n, xs). length xs)") auto

declare chunks.simps [simp del]

definition md5_step :: "32 word list \<Rightarrow> nat \<Rightarrow> md5_state \<Rightarrow> md5_state" where
  "md5_step M i st =
     (case st of (a, b, c, d) \<Rightarrow>
        (let f = (if i < 16 then (b AND c) OR (NOT b AND d)
                  else if i < 32 then (d AND b) OR (NOT d AND c)
                  else if i < 48 then b XOR c XOR d
                  else c XOR (b OR NOT d));
             g = (if i < 16 then i
                  else if i < 32 then (5 * i + 1) mod 16
                  else if i < 48 then (3 * i + 5) mod 16
                  else (7 * i) mod 16)
         in (d, b + rotate_left (a + f + md5_K ! i + M ! g) (md5_s ! i), b, c)))"

definition md5_block :: "md5_state \<Rightarrow> 8 word list \<Rightarrow> md5_state" where
  "md5_block st block =
     (case st of (a, b, c, d) \<Rightarrow>
        (case fold (md5_step (map word_le (chunks 4 block))) [0..<64] st of
           (a', b', c', d') \<Rightarrow> (a + a', b + b', c + c', d + d')))"

definition md5_pad :: "8 word list \<Rightarrow> 8 word list" where
  "md5_pad msg =
     msg @ [128] @ replicate ((119 - length msg mod 64) mod 64) 0 @
     map (\<lambda>k. ucast (drop_bit (8 * k) (of_nat (8 * length msg) :: 64 word))) [0..<8]"

definition md5_digest :: "8 word list \<Rightarrow> 8 word list" where
  "md5_digest msg =
     (case fold (\<lambda>block st. md5_block st block) (chunks 64 (md5_pad msg))
             (0x67452301, 0xefcdab89, 0x98badcfe, 0x10325476) of
        (a, b, c, d) \<Rightarrow> bytes_le a @ bytes_le b @ bytes_le c @ bytes_le d)"

text \<open>\<open>hashlib.md5(data).hexdigest()\<close>: two lower-case hexadecimal digits for each byte.\<close>

definition hex_byte :: "8 word \<Rightarrow> string" where
  "hex_byte b = [hex_digit (unat b div 16), hex_digit (unat b mod 16)]"

definition md5_hexdigest :: "8 word list \<Rightarrow> string" where
  "md5_hexdigest msg = concat (map hex_byte (md5_digest msg))"

text \<open>\<open>s.encode("utf-8")\<close> for code points below 256: one byte below 128, two bytes from 128.\<close>

definition encode_utf8 :: "string \<Rightarrow> 8 word list" where
  "encode_utf8 s =
     concat (map (\<lambda>c. let n = (of_char c :: nat) in
                       if n < 128 then [of_nat n]
                       else [of_nat (192 + n div 64), of_nat (128 + n mod 64)]) s)"

section \<open>\<open>mlflow/data/dataset.py\<close>\<close>

text \<open>
  The \<open>source\<close> argument is either a dataset source, given by what its methods
  \<open>to_json()\<close> and \<open>_get_source_type()\<close> return, or some other Python value (\<open>None\<close>,
  a string, ...), which has neither method.
\<close>

record DatasetSource =
  to_json :: string
  get_source_type :: string

datatype source_arg = Source DatasetSource | NotASource pyval

text \<open>
  The attributes \<open>_name\<close> and \<open>_source\<close>, which \<open>__init__\<close> sets before the digest is
  computed, and the complete object with \<open>_digest\<close>.
\<close>

record Dataset_attrs =
  attr_name :: "string option"
  attr_source :: source_arg

record Dataset = Dataset_attrs +
  attr_digest :: string

text \<open>The properties \<open>name\<close>, \<open>source\<close> and \<open>digest\<close>.\<close>

definition name :: "'a Dataset_attrs_scheme \<Rightarrow> string" where
  "name self = (case attr_name self of Some n \<Rightarrow> n | None \<Rightarrow> ''dataset'')"

definition source :: "'a Dataset_attrs_scheme \<Rightarrow> source_arg" where
  "source self = attr_source self"

definition digest :: "'a Dataset_scheme \<Rightarrow> string" where
  "digest self = attr_digest self"

text \<open>A method call on the source: \<open>AttributeError\<close> when the value has no such method.\<close>

definition call_to_json :: "source_arg \<Rightarrow> py_error + string" where
  "call_to_json src = (case src of Source s \<Rightarrow> Inr (to_json s) | NotASource v \<Rightarrow> Inl AttributeError)"

definition call_get_source_type :: "source_arg \<Rightarrow> py_error + string" where
  "call_get_source_type src =
     (case src of Source s \<Rightarrow> Inr (get_source_type s) | NotASource v \<Rightarrow> Inl AttributeError)"

text \<open>\<open>Dataset._compute_digest\<close>.\<close>

definition compute_digest :: "'a Dataset_attrs_scheme \<Rightarrow> py_error + string" where
  "compute_digest self =
     bind_err (call_to_json (source self)) (\<lambda>src_json.
     bind_err (call_get_source_type (source self)) (\<lambda>src_type.
       let config = PyDict [(''name'', PyStr (name self)),
                            (''source'', PyStr src_json),
                            (''source_type'', PyStr src_type)]
       in bind_err (json_dumps config)
            (\<lambda>text. Inr (take 8 (md5_hexdigest (encode_utf8 text))))))"

text \<open>\<open>Dataset.__init__\<close>: \<open>digest or self._compute_digest()\<close> computes for \<open>None\<close> and for the empty string.\<close>

definition Dataset_init :: "source_arg \<Rightarrow> string option \<Rightarrow> string option \<Rightarrow> py_error + Dataset" where
  "Dataset_init src nm dg =
     (let self = \<lparr>attr_name = nm, attr_source = src\<rparr> in
      bind_err (case dg of
                  Some d \<Rightarrow> if d \<noteq> [] then Inr d else compute_digest self
                | None \<Rightarrow> compute_digest self)
        (\<lambda>d. Inr (Dataset_attrs.extend self \<lparr>attr_digest = d\<rparr>)))"

text \<open>\<open>Dataset.to_dict\<close> and \<open>Dataset.to_json\<close>.\<close>

definition to_dict :: "'a Dataset_scheme \<Rightarrow> py_error + (string \<times> pyval) list" where
  "to_dict self =
     bind_err (call_to_json (source self)) (\<lambda>src_json.
     bind_err (call_get_source_type (source self)) (\<lambda>src_type.
       Inr [(''name'', PyStr (name self)),
            (''digest'', PyStr (digest self)),
            (''source'', PyStr src_json),
            (''source_type'', PyStr src_type)]))"

definition Dataset_to_json :: "'a Dataset_scheme \<Rightarrow> py_error + string" where
  "Dataset_to_json self = bind_err (to_dict self) (\<lambda>d. json_dumps (PyDict d))"

section \<open>Notions of the specification\<close>


text \<open>
  An argument \<open>error_code\<close> for which the runtime finds a member: an integer in the range
  of a 64-bit \<open>long\<close> whose low 32 bits are the number of a member.
\<close>

definition found_by_runtime :: "enum_desc \<Rightarrow> pyval \<Rightarrow> bool" where
  "found_by_runtime E v =
     (case int_key v of
        Some n \<Rightarrow> (case c_long_to_int n of Some w \<Rightarrow> w \<in> set (map snd E) | None \<Rightarrow> False)
      | None \<Rightarrow> False)"

text \<open>Values that can be looked up in a Python dictionary: all but lists and dictionaries.\<close>

definition hashable :: "pyval \<Rightarrow> bool" where
  "hashable v = (case v of PyList xs \<Rightarrow> False | PyDict kvs \<Rightarrow> False | _ \<Rightarrow> True)"

text \<open>Values that \<open>json.dumps\<close> serializes: those that hold no object of another class.\<close>

fun json_serializable :: "pyval \<Rightarrow> bool" where
  "json_serializable (PyList xs) = list_all json_serializable xs"
| "json_serializable (PyDict kvs) = list_all (\<lambda>p. json_serializable (snd p)) kvs"
| "json_serializable (PyObject s r) = False"
| "json_serializable v = True"

text \<open>
  Keyword arguments that a call can pass on as extras: no keyword twice, and none named
  \<open>self\<close>, \<open>message\<close> or \<open>error_code\<close>.
\<close>

definition extras_ok :: "(string \<times> pyval) list \<Rightarrow> bool" where
  "extras_ok kws \<longleftrightarrow>
     distinct (map fst kws) \<and> ''self'' \<notin> set (map fst kws) \<and>
     ''message'' \<notin> set (map fst kws) \<and> ''error_code'' \<notin> set (map fst kws)"

section \<open>The descriptor round trip\<close>

text \<open>
  Modelled from the spec: the classes with \<open>from_dict\<close> (\<open>mlflow.models.Model\<close> and the
  concrete datasets) are not among the sources, which hold \<open>Dataset.to_dict\<close> and the tests
  of \<open>Model\<close> only. The descriptor of the specification has an optional name, a digest, a
  source, and the variant-specific fields, each of them optional. Its serialized form has
  the keys \<open>name\<close>, \<open>digest\<close>, \<open>source\<close> and \<open>source_type\<close>, then the variant-specific
  fields that are set. Loading requires \<open>digest\<close>, \<open>source\<close> and \<open>source_type\<close> and fails
  with a parsing error without them; an optional key that is absent gives the field \<open>None\<close>.
\<close>

datatype load_error = ParsingError

record Descriptor =
  desc_name :: "string option"
  desc_digest :: string
  desc_source :: DatasetSource
  flavors :: "pyval option"
  signature :: "pyval option"
  run_id :: "pyval option"
  model_uuid :: "pyval option"
  utc_time_created :: "pyval option"
  mlflow_version :: "pyval option"
  saved_input_example_info :: "pyval option"
  metadata :: "pyval option"
  resources :: "pyval option"
  prompts :: "pyval option"

text \<open>Modelled from the spec: the name defaults to a fixed placeholder, as in \<open>Dataset.name\<close>.\<close>

definition desc_name_property :: "Descriptor \<Rightarrow> string" where
  "desc_name_property d = (case desc_name d of Some n \<Rightarrow> n | None \<Rightarrow> ''dataset'')"

text \<open>Modelled from the spec: the variant-specific fields with their keys.\<close>

definition variant_fields :: "Descriptor \<Rightarrow> (string \<times> pyval option) list" where
  "variant_fields d =
    [(''flavors'', flavors d), (''signature'', signature d), (''run_id'', run_id d),
     (''model_uuid'', model_uuid d), (''utc_time_created'', utc_time_created d),
     (''mlflow_version'', mlflow_version d),
     (''saved_input_example_info'', saved_input_example_info d),
     (''metadata'', metadata d), (''resources'', resources d), (''prompts'', prompts d)]"

fun set_fields :: "(string \<times> pyval option) list \<Rightarrow> (string \<times> pyval) list" where
  "set_fields [] = []"
| "set_fields ((k, None) # fs) = set_fields fs"
| "set_fields ((k, Some v) # fs) = (k, v) # set_fields fs"

text \<open>Modelled from the spec: \<open>to_dict\<close>, the four keys of \<open>Dataset.to_dict\<close> and the fields that are set.\<close>

definition descriptor_to_dict :: "Descriptor \<Rightarrow> (string \<times> pyval) list" where
  "descriptor_to_dict d =
     [(''name'', PyStr (desc_name_property d)),
      (''digest'', PyStr (desc_digest d)),
      (''source'', PyStr (to_json (desc_source d))),
      (''source_type'', PyStr (get_source_type (desc_source d)))]
     @ set_fields (variant_fields d)"

text \<open>A key that must hold a string, and one that may be absent.\<close>

definition required_str :: "(string \<times> pyval) list \<Rightarrow> string \<Rightarrow> load_error + string" where
  "required_str m k = (case map_of m k of Some (PyStr s) \<Rightarrow> Inr s | _ \<Rightarrow> Inl ParsingError)"

definition optional_str :: "(string \<times> pyval) list \<Rightarrow> string \<Rightarrow> load_error + string option" where
  "optional_str m k =
     (case map_of m k of None \<Rightarrow> Inr None | Some (PyStr s) \<Rightarrow> Inr (Some s) | _ \<Rightarrow> Inl ParsingError)"

text \<open>Modelled from the spec: \<open>from_dict\<close>.\<close>

definition descriptor_from_dict :: "(string \<times> pyval) list \<Rightarrow> load_error + Descriptor" where
  "descriptor_from_dict m =
     (case (optional_str m ''name'', required_str m ''digest'', required_str m ''source'',
            required_str m ''source_type'') of
        (Inr nm, Inr dg, Inr src, Inr ty) \<Rightarrow>
          Inr \<lparr>desc_name = nm, desc_digest = dg,
               desc_source = \<lparr>to_json = src, get_source_type = ty\<rparr>,
               flavors = map_of m ''flavors'', signature = map_of m ''signature'',
               run_id = map_of m ''run_id'', model_uuid = map_of m ''model_uuid'',
               utc_time_created = map_of m ''utc_time_created'',
               mlflow_version = map_of m ''mlflow_version'',
               saved_input_example_info = map_of m ''saved_input_example_info'',
               metadata = map_of m ''metadata'', resources = map_of m ''resources'',
               prompts = map_of m ''prompts''\<rparr>
      | _ \<Rightarrow> Inl ParsingError)"

section \<open>Dictionary lemmas\<close>

lemma dict_get_absent: "k \<notin> fst ` set d \<Longrightarrow> dict_get d k dflt = dflt"
  using map_of_eq_None_iff [of d k] by (simp add: dict_get_def)

lemma dict_get_range: "dict_get d k dflt \<in> insert dflt (snd ` set d)"
  by (auto simp: dict_get_def split: option.splits dest: map_of_SomeD intro: rev_image_eqI)

lemma table_keys:
  "map fst ERROR_CODE_TO_HTTP_STATUS =
    [''INTERNAL_ERROR'', ''INVALID_STATE'', ''DATA_LOSS'', ''NOT_IMPLEMENTED'',
     ''TEMPORARILY_UNAVAILABLE'', ''DEADLINE_EXCEEDED'', ''REQUEST_LIMIT_EXCEEDED'',
     ''CANCELLED'', ''RESOURCE_EXHAUSTED'', ''ABORTED'', ''RESOURCE_CONFLICT'',
     ''ALREADY_EXISTS'', ''NOT_FOUND'', ''ENDPOINT_NOT_FOUND'', ''RESOURCE_DOES_NOT_EXIST'',
     ''PERMISSION_DENIED'', ''CUSTOMER_UNAUTHORIZED'', ''UNAUTHENTICATED'', ''BAD_REQUEST'',
     ''RESOURCE_ALREADY_EXISTS'', ''INVALID_PARAMETER_VALUE'']"
  by (simp add: ERROR_CODE_TO_HTTP_STATUS_def)

section \<open>The status of an error code\<close>

text \<open>
  C5. \<open>get_http_status_code\<close> is a total function of the exception's code name. For each
  name of the fixed table it returns the table's status: INTERNAL_ERROR 500,
  NOT_IMPLEMENTED 501, TEMPORARILY_UNAVAILABLE 503, DEADLINE_EXCEEDED 504,
  REQUEST_LIMIT_EXCEEDED and RESOURCE_EXHAUSTED 429, ABORTED, RESOURCE_CONFLICT and
  ALREADY_EXISTS 409, NOT_FOUND, ENDPOINT_NOT_FOUND and RESOURCE_DOES_NOT_EXIST 404,
  PERMISSION_DENIED 403, CUSTOMER_UNAUTHORIZED and UNAUTHENTICATED 401, BAD_REQUEST,
  RESOURCE_ALREADY_EXISTS and INVALID_PARAMETER_VALUE 400. For a code name that is not a
  key of \<open>ERROR_CODE_TO_HTTP_STATUS\<close> it returns 500, and whatever the name, the result
  is one of the statuses of the table.
\<close>

theorem code_to_status_table:
  fixes e :: "'a MlflowException_scheme"
  shows
  "get_http_status_code (e\<lparr>error_code := ''INTERNAL_ERROR''\<rparr>) = 500 \<and>
   get_http_status_code (e\<lparr>error_code := ''NOT_IMPLEMENTED''\<rparr>) = 501 \<and>
   get_http_status_code (e\<lparr>error_code := ''TEMPORARILY_UNAVAILABLE''\<rparr>) = 503 \<and>
   get_http_status_code (e\<lparr>error_code := ''DEADLINE_EXCEEDED''\<rparr>) = 504 \<and>
   get_http_status_code (e\<lparr>error_code := ''REQUEST_LIMIT_EXCEEDED''\<rparr>) = 429 \<and>
   get_http_status_code (e\<lparr>error_code := ''RESOURCE_EXHAUSTED''\<rparr>) = 429 \<and>
   get_http_status_code (e\<lparr>error_code := ''ABORTED''\<rparr>) = 409 \<and>
   get_http_status_code (e\<lparr>error_code := ''RESOURCE_CONFLICT''\<rparr>) = 409 \<and>
   get_http_status_code (e\<lparr>error_code := ''ALREADY_EXISTS''\<rparr>) = 409 \<and>
   get_http_status_code (e\<lparr>error_code := ''NOT_FOUND''\<rparr>) = 404 \<and>
   get_http_status_code (e\<lparr>error_code := ''ENDPOINT_NOT_FOUND''\<rparr>) = 404 \<and>
   get_http_status_code (e\<lparr>error_code := ''RESOURCE_DOES_NOT_EXIST''\<rparr>) = 404 \<and>
   get_http_status_code (e\<lparr>error_code := ''PERMISSION_DENIED''\<rparr>) = 403 \<and>
   get_http_status_code (e\<lparr>error_code := ''CUSTOMER_UNAUTHORIZED''\<rparr>) = 401 \<and>
   get_http_status_code (e\<lparr>error_code := ''UNAUTHENTICATED''\<rparr>) = 401 \<and>
   get_http_status_code (e\<lparr>error_code := ''BAD_REQUEST''\<rparr>) = 400 \<and>
   get_http_status_code (e\<lparr>error_code := ''RESOURCE_ALREADY_EXISTS''\<rparr>) = 400 \<and>
   get_http_status_code (e\<lparr>error_code := ''INVALID_PARAMETER_VALUE''\<rparr>) = 400 \<and>
   (error_code e \<notin> set (map fst ERROR_CODE_TO_HTTP_STATUS) \<longrightarrow> get_http_status_code e = 500) \<and>
   get_http_status_code e \<in> {400, 401, 403, 404, 409, 429, 499, 500, 501, 503, 504}"
proof -
  have known: "\<And>n. get_http_status_code (e\<lparr>error_code := n\<rparr>) = dict_get ERROR_CODE_TO_HTTP_STATUS n 500"
    by (simp add: get_http_status_code_def)
  have absent: "error_code e \<notin> set (map fst ERROR_CODE_TO_HTTP_STATUS) \<longrightarrow> get_http_status_code e = 500"
    by (simp add: get_http_status_code_def dict_get_absent)
  have "get_http_status_code e \<in> insert 500 (snd ` set ERROR_CODE_TO_HTTP_STATUS)"
    unfolding get_http_status_code_def by (rule dict_get_range)
  then have total: "get_http_status_code e \<in> {400, 401, 403, 404, 409, 429, 499, 500, 501, 503, 504}"
    by (auto simp: ERROR_CODE_TO_HTTP_STATUS_def)
  show ?thesis
    unfolding known using absent total
    by (simp add: dict_get_def ERROR_CODE_TO_HTTP_STATUS_def)
qed

theorem code_to_status_table_witness:
  "error_code \<lparr>error_code = ''IO_ERROR'', message = ''disk'', json_kwargs = []\<rparr>
     \<notin> set (map fst ERROR_CODE_TO_HTTP_STATUS) \<and>
   get_http_status_code \<lparr>error_code = ''IO_ERROR'', message = ''disk'', json_kwargs = []\<rparr> = 500 \<and>
   get_http_status_code \<lparr>error_code = ''CANCELLED'', message = ''disk'', json_kwargs = []\<rparr> = 499"
  using code_to_status_table [of "\<lparr>error_code = ''IO_ERROR'', message = ''disk'', json_kwargs = []\<rparr>"]
  by (simp add: table_keys get_http_status_code_def dict_get_def ERROR_CODE_TO_HTTP_STATUS_def)


section \<open>The enumeration and the constructors\<close>

lemma bind_err_simps [simp]:
  "bind_err (Inl e) f = Inl e" "bind_err (Inr x) f = f x"
  by (simp_all add: bind_err_def)

lemma find_snd_unique:
  "distinct (map snd E) \<Longrightarrow> (nm, n) \<in> set E \<Longrightarrow> find (\<lambda>p. snd p = n) E = Some (nm, n)"
proof (induction E)
  case Nil
  then show ?case by simp
next
  case (Cons p E)
  show ?case
  proof (cases "snd p = n")
    case True
    with Cons.prems have "p = (nm, n)"
      by (auto simp: image_iff)
    with True show ?thesis by simp
  next
    case False
    with Cons show ?thesis by auto
  qed
qed

lemma c_long_to_int_sint: "c_long_to_int (sint (w :: 32 word)) = Some w"
  using sint_ge [of w] sint_lt [of w] by (simp add: c_long_to_int_def)

lemma Name_of_member:
  "distinct (map snd E) \<Longrightarrow> (nm, w) \<in> set E \<Longrightarrow> ErrorCode_Name E (PyInt (sint w)) = Inr nm"
  by (simp add: ErrorCode_Name_def c_long_to_int_sint find_snd_unique)

lemma Value_Name:
  assumes "pb2_ok E" and "ErrorCode_Value E (PyStr s) = Inr n"
  shows "ErrorCode_Name E (PyInt n) = Inr s"
proof -
  from assms(2) obtain w where w: "map_of E s = Some w" "n = sint w"
    by (auto split: option.splits)
  then have "(s, w) \<in> set E"
    by (auto dest: map_of_SomeD)
  with assms(1) w(2) show ?thesis
    by (simp add: pb2_ok_def Name_of_member)
qed

lemma import_Value: "pb2_import E nm = Inr n \<longleftrightarrow> ErrorCode_Value E (PyStr nm) = Inr n"
  by (simp add: pb2_import_def split: option.splits)

lemma import_ok:
  assumes "pb2_ok E" and "nm \<in> set imported_names"
  shows "\<exists>n. pb2_import E nm = Inr n"
proof -
  from assms have "nm \<in> fst ` set E"
    by (auto simp: pb2_ok_def list_all_iff)
  then obtain w where "map_of E nm = Some w"
    by (metis domD dom_map_of_conv_image_fst)
  then show ?thesis
    by (simp add: pb2_import_def)
qed

lemma Name_of_imported:
  assumes "pb2_ok E" and "nm \<in> set imported_names"
  shows "Name_of_constant E nm = Inr nm"
proof -
  from import_ok [OF assms] obtain n where n: "pb2_import E nm = Inr n" ..
  then have "ErrorCode_Name E (PyInt n) = Inr nm"
    using Value_Name [OF assms(1)] by (simp add: import_Value)
  with n show ?thesis by (simp add: Name_of_constant_def)
qed

lemma Name_INTERNAL_ERROR_ok: "pb2_ok E \<Longrightarrow> Name_INTERNAL_ERROR E = Inr ''INTERNAL_ERROR''"
  unfolding Name_INTERNAL_ERROR_def
  by (rule Name_of_imported) (simp_all add: imported_names_def)

lemma dict_setitem_new: "k \<notin> fst ` set d \<Longrightarrow> dict_setitem k v d = d @ [(k, v)]"
  by (induction d) auto

lemma dict_display_imported:
  assumes "pb2_ok E"
  shows "set (map fst ps) \<subseteq> set imported_names \<Longrightarrow> distinct (map fst (d @ ps)) \<Longrightarrow>
         dict_display E ps d = Inr (d @ ps)"
proof (induction ps arbitrary: d)
  case Nil
  then show ?case by simp
next
  case (Cons p ps)
  from Cons.prems have key: "Name_of_constant E (fst p) = Inr (fst p)"
    by (simp add: Name_of_imported [OF assms])
  from Cons.prems have "fst p \<notin> fst ` set d"
    by auto
  then have "dict_setitem (fst p) (snd p) d = d @ [p]"
    by (simp add: dict_setitem_new)
  moreover from Cons.prems have "dict_display E ps (d @ [p]) = Inr ((d @ [p]) @ ps)"
    by (intro Cons.IH) auto
  ultimately show ?case
    using key by simp
qed

lemma module_table:
  assumes "pb2_ok E"
  shows "dict_display E ERROR_CODE_TO_HTTP_STATUS [] = Inr ERROR_CODE_TO_HTTP_STATUS"
proof -
  have "set (map fst ERROR_CODE_TO_HTTP_STATUS) \<subseteq> set imported_names"
    by (simp add: table_keys imported_names_def)
  moreover have "distinct (map fst ([] @ ERROR_CODE_TO_HTTP_STATUS))"
    by (simp add: table_keys)
  ultimately show ?thesis
    using dict_display_imported [OF assms, of ERROR_CODE_TO_HTTP_STATUS "[]"] by simp
qed

lemma ErrorCode_Name_Inl: "ErrorCode_Name E v = Inl e \<Longrightarrow> e = ValueError \<or> e = TypeError"
  by (auto simp: ErrorCode_Name_def split: option.splits)

lemma ErrorCode_Name_Inr: "ErrorCode_Name E v = Inr nm \<Longrightarrow> nm \<in> fst ` set E"
  by (auto simp: ErrorCode_Name_def find_Some_iff split: option.splits)

lemma pb2_ok_sample: "pb2_ok ErrorCode_sample"
  by (simp add: pb2_ok_def ErrorCode_sample_def imported_names_def)


lemma Name_found:
  assumes "found_by_runtime E code"
  shows "\<exists>nm. ErrorCode_Name E code = Inr nm"
proof -
  from assms obtain n w where nw: "int_key code = Some n" "c_long_to_int n = Some w" "w \<in> snd ` set E"
    by (auto simp: found_by_runtime_def split: option.splits)
  from nw(3) have "find (\<lambda>p. snd p = w) E \<noteq> None"
    by (auto simp: find_None_iff)
  with nw show ?thesis
    by (auto simp: ErrorCode_Name_def)
qed

lemma init_body_eq:
  assumes "pb2_ok E"
  shows "MlflowException_init_body E msg code kw =
           Inr \<lparr>error_code = (case ErrorCode_Name E code of Inr nm \<Rightarrow> nm | Inl e \<Rightarrow> ''INTERNAL_ERROR''),
                message = py_str msg, json_kwargs = kw\<rparr>"
proof (cases "ErrorCode_Name E code")
  case (Inl e)
  then have "e = ValueError \<or> e = TypeError"
    by (rule ErrorCode_Name_Inl)
  with Inl assms show ?thesis
    by (auto simp: MlflowException_init_body_def Name_INTERNAL_ERROR_ok)
next
  case (Inr nm)
  then show ?thesis
    by (simp add: MlflowException_init_body_def)
qed

lemma extra_keywords_id: "extras_ok kws \<Longrightarrow> extra_keywords kws = kws"
  by (force simp: extras_ok_def extra_keywords_def filter_id_conv)

lemma extra_keywords_ok:
  "distinct (map fst kws) \<Longrightarrow> ''self'' \<notin> set (map fst kws) \<Longrightarrow> extras_ok (extra_keywords kws)"
  by (auto simp: extras_ok_def extra_keywords_def distinct_map_filter)

lemma map_of_absent: "k \<notin> set (map fst kws) \<Longrightarrow> map_of kws k = None"
  by (simp add: map_of_eq_None_iff)

lemma init_positional:
  "extras_ok kws \<Longrightarrow> MlflowException_init E [m, c] kws = MlflowException_init_body E m c kws"
  by (simp add: MlflowException_init_def extra_keywords_id) (simp add: extras_ok_def)

lemma init_keyword:
  "extras_ok kws \<Longrightarrow>
   MlflowException_init E [m] ((''error_code'', c) # kws) = MlflowException_init_body E m c kws"
  using extra_keywords_id [of kws]
  by (simp add: MlflowException_init_def code_argument_def extra_keywords_def extras_ok_def)

lemma init_default:
  "extras_ok kws \<Longrightarrow>
   MlflowException_init E [m] kws =
     bind_err (pb2_import E ''INTERNAL_ERROR'') (\<lambda>n. MlflowException_init_body E m (PyInt n) kws)"
  using extra_keywords_id [of kws] map_of_absent [of "''error_code''" kws]
  by (cases "pb2_import E ''INTERNAL_ERROR''")
     (simp_all add: MlflowException_init_def code_argument_def extras_ok_def)

lemma init_collision:
  "''message'' \<in> set (map fst kws) \<Longrightarrow> MlflowException_init E (m # args) kws = Inl TypeError"
  "''error_code'' \<in> set (map fst kws) \<Longrightarrow> MlflowException_init E (m # c # args) kws = Inl TypeError"
  "''self'' \<in> set (map fst kws) \<Longrightarrow> MlflowException_init E args' kws = Inl TypeError"
  "\<not> distinct (map fst kws) \<Longrightarrow> MlflowException_init E args' kws = Inl TypeError"
proof -
  show "''self'' \<in> set (map fst kws) \<Longrightarrow> MlflowException_init E args' kws = Inl TypeError"
    by (simp add: MlflowException_init_def)
  show "\<not> distinct (map fst kws) \<Longrightarrow> MlflowException_init E args' kws = Inl TypeError"
    by (simp add: MlflowException_init_def)
  show "''message'' \<in> set (map fst kws) \<Longrightarrow> MlflowException_init E (m # args) kws = Inl TypeError"
  proof (cases args)
    case Nil
    then show "''message'' \<in> set (map fst kws) \<Longrightarrow> ?thesis"
      by (simp add: MlflowException_init_def)
  next
    case (Cons c rest)
    then show "''message'' \<in> set (map fst kws) \<Longrightarrow> ?thesis"
      by (cases rest) (simp_all add: MlflowException_init_def)
  qed
  show "''error_code'' \<in> set (map fst kws) \<Longrightarrow> MlflowException_init E (m # c # args) kws = Inl TypeError"
    by (cases args) (simp_all add: MlflowException_init_def)
qed

lemma extras_ok_Nil: "extras_ok []"
  by (simp add: extras_ok_def)

lemma Value_cases:
  "(\<exists>s w. code = PyStr s \<and> map_of E s = Some w \<and> ErrorCode_Value E code = Inr (sint w)) \<or>
   ErrorCode_Value E code = Inl ValueError \<or> ErrorCode_Value E code = Inl TypeError"
  by (cases code) (auto split: option.splits)

lemma RestException_init_known:
  assumes "pb2_ok E" and "dict_get js ''error_code'' (PyStr ''INTERNAL_ERROR'') = PyStr s"
    and "map_of E s = Some w"
  shows "RestException_init E js =
           (Inr \<lparr>error_code = s, message = rest_message (PyStr s) js, json_kwargs = [], json = js\<rparr>, [])"
proof -
  have v: "ErrorCode_Value E (PyStr s) = Inr (sint w)"
    using assms(3) by simp
  have "ErrorCode_Name E (PyInt (sint w)) = Inr s"
    using Value_Name [OF assms(1) v] .
  then show ?thesis
    using assms v
    by (simp add: RestException_init_def Name_INTERNAL_ERROR_ok init_keyword extras_ok_Nil
        init_body_eq MlflowException.extend_def Let_def)
qed

lemma RestException_init_unknown:
  assumes "pb2_ok E" and "dict_get js ''error_code'' (PyStr ''INTERNAL_ERROR'') = code"
    and "ErrorCode_Value E code = Inl ValueError"
  shows "RestException_init E js =
           (Inr \<lparr>error_code = ''INTERNAL_ERROR'', message = rest_message code js, json_kwargs = [], json = js\<rparr>,
            [unrecognized_warning code])"
proof -
  from import_ok [OF assms(1), of "''INTERNAL_ERROR''"]
  obtain n where n: "pb2_import E ''INTERNAL_ERROR'' = Inr n"
    by (auto simp: imported_names_def)
  then have "ErrorCode_Name E (PyInt n) = Inr ''INTERNAL_ERROR''"
    using Value_Name [OF assms(1)] by (simp add: import_Value)
  then show ?thesis
    using assms n
    by (simp add: RestException_init_def Name_INTERNAL_ERROR_ok init_default extras_ok_Nil
        init_body_eq MlflowException.extend_def Let_def)
qed

lemma RestException_init_unhashable:
  assumes "pb2_ok E" and "dict_get js ''error_code'' (PyStr ''INTERNAL_ERROR'') = code"
    and "ErrorCode_Value E code = Inl TypeError"
  shows "RestException_init E js = (Inl TypeError, [])"
  using assms
  by (simp add: RestException_init_def Name_INTERNAL_ERROR_ok Let_def)

lemma Name_INTERNAL_member: "pb2_ok E \<Longrightarrow> ''INTERNAL_ERROR'' \<in> fst ` set E"
  by (simp add: pb2_ok_def imported_names_def)

lemma init_body_invariant:
  assumes "pb2_ok E"
  shows "\<exists>e. MlflowException_init_body E msg code kwargs = Inr e \<and>
             error_code e \<in> set (map fst E) \<and>
             (ErrorCode_Name E code = Inr (error_code e) \<or> error_code e = ''INTERNAL_ERROR'') \<and>
             message e = py_str msg \<and> json_kwargs e = kwargs"
proof (cases "ErrorCode_Name E code")
  case (Inl e)
  with assms show ?thesis
    by (simp add: init_body_eq Name_INTERNAL_member)
next
  case (Inr nm)
  with assms ErrorCode_Name_Inr [OF Inr] show ?thesis
    by (simp add: init_body_eq)
qed

lemma code_argument_ok:
  assumes "pb2_ok E"
  shows "\<exists>c. code_argument E kws = Inr c"
proof -
  from import_ok [OF assms, of "''INTERNAL_ERROR''"]
  obtain n where "pb2_import E ''INTERNAL_ERROR'' = Inr n"
    by (auto simp: imported_names_def)
  then show ?thesis
    by (simp add: code_argument_def split: option.splits)
qed

text \<open>Every exception that the constructor returns comes from the body, run on bound arguments.\<close>

lemma init_Inr:
  assumes "MlflowException_init E args kws = Inr e"
  shows "\<exists>m c. bind_arguments E args kws = Inr (m, c) \<and>
               MlflowException_init_body E m c (extra_keywords kws) = Inr e \<and>
               extras_ok (extra_keywords kws)"
proof -
  from assms have ok: "distinct (map fst kws)" "''self'' \<notin> set (map fst kws)"
    by (auto simp: MlflowException_init_def split: if_splits)
  with assms obtain mc where mc: "bind_arguments E args kws = Inr mc"
    "MlflowException_init_body E (fst mc) (snd mc) (extra_keywords kws) = Inr e"
    by (cases "bind_arguments E args kws") (auto simp: MlflowException_init_def)
  with ok show ?thesis
    by (cases mc) (auto simp: extra_keywords_ok)
qed

lemma init_invariant:
  assumes "pb2_ok E" and "MlflowException_init E args kws = Inr e"
  shows "error_code e \<in> set (map fst E) \<and>
         (\<exists>m c. bind_arguments E args kws = Inr (m, c) \<and> message e = py_str m \<and>
                (ErrorCode_Name E c = Inr (error_code e) \<or> error_code e = ''INTERNAL_ERROR'')) \<and>
         json_kwargs e = extra_keywords kws \<and> extras_ok (json_kwargs e)"
proof -
  from init_Inr [OF assms(2)] obtain m c where mc: "bind_arguments E args kws = Inr (m, c)"
    "MlflowException_init_body E m c (extra_keywords kws) = Inr e"
    "extras_ok (extra_keywords kws)"
    by blast
  from init_body_invariant [OF assms(1), of m c "extra_keywords kws"] mc(2)
  have "error_code e \<in> set (map fst E)"
    "ErrorCode_Name E c = Inr (error_code e) \<or> error_code e = ''INTERNAL_ERROR''"
    "message e = py_str m" "json_kwargs e = extra_keywords kws"
    by auto
  with mc show ?thesis
    by auto
qed

lemma RestException_init_invariant:
  assumes "pb2_ok E" and "fst (RestException_init E js) = Inr r"
  shows "error_code r \<in> set (map fst E) \<and>
         (dict_get js ''error_code'' (PyStr ''INTERNAL_ERROR'') = PyStr (error_code r) \<or>
          error_code r = ''INTERNAL_ERROR'') \<and>
         message r = rest_message (dict_get js ''error_code'' (PyStr ''INTERNAL_ERROR'')) js \<and>
         json r = js"
proof -
  let ?code = "dict_get js ''error_code'' (PyStr ''INTERNAL_ERROR'')"
  from Value_cases [of ?code E] consider
    (known) s w where "?code = PyStr s" "map_of E s = Some w"
    | (unknown) "ErrorCode_Value E ?code = Inl ValueError"
    | (unhashable) "ErrorCode_Value E ?code = Inl TypeError"
    by blast
  then show ?thesis
  proof cases
    case known
    from known(2) have "s \<in> fst ` set E"
      by (force dest: map_of_SomeD)
    moreover from assms(2) have "r = \<lparr>error_code = s, message = rest_message (PyStr s) js,
        json_kwargs = [], json = js\<rparr>"
      by (simp add: RestException_init_known [OF assms(1) known])
    ultimately show ?thesis
      using known(1) by simp
  next
    case unknown
    from assms(2) have "r = \<lparr>error_code = ''INTERNAL_ERROR'', message = rest_message ?code js,
        json_kwargs = [], json = js\<rparr>"
      by (simp add: RestException_init_unknown [OF assms(1) refl unknown])
    then show ?thesis
      using Name_INTERNAL_member [OF assms(1)] by simp
  next
    case unhashable
    with assms show ?thesis
      by (simp add: RestException_init_unhashable [OF assms(1) refl unhashable])
  qed
qed

section \<open>Construction with an invalid code\<close>






section \<open>The invariant of constructed exceptions\<close>

lemma init_imported:
  assumes "pb2_ok E" and "nm \<in> set imported_names" and "extras_ok kw"
  shows "bind_err (pb2_import E nm) (\<lambda>n. MlflowException_init E [f] ((''error_code'', PyInt n) # kw)) =
           Inr \<lparr>error_code = nm, message = py_str f, json_kwargs = kw\<rparr>"
proof -
  from import_ok [OF assms(1,2)] obtain n where n: "pb2_import E nm = Inr n" ..
  with Name_of_imported [OF assms(1,2)] have "ErrorCode_Name E (PyInt n) = Inr nm"
    by (simp add: Name_of_constant_def)
  with n show ?thesis
    by (simp add: init_keyword [OF assms(3)] init_body_eq [OF assms(1)])
qed

lemma invalid_parameter_value_ok:
  assumes "pb2_ok E" and "extras_ok kws" and "''cls'' \<notin> set (map fst kws)"
  shows "invalid_parameter_value E [msg] kws =
           Inr \<lparr>error_code = ''INVALID_PARAMETER_VALUE'', message = py_str msg, json_kwargs = kws\<rparr>"
proof -
  have "''INVALID_PARAMETER_VALUE'' \<in> set imported_names"
    by (simp add: imported_names_def)
  from init_imported [OF assms(1) this assms(2), of msg] assms(2,3) show ?thesis
    by (simp add: invalid_parameter_value_def extras_ok_def)
qed

lemma invalid_parameter_value_Inr:
  assumes "pb2_ok E" and "invalid_parameter_value E args kws = Inr e"
  shows "error_code e = ''INVALID_PARAMETER_VALUE'' \<and>
         (\<exists>m rest. bind_message args kws = Inr (m, rest) \<and> message e = py_str m \<and>
                    json_kwargs e = rest \<and> extras_ok rest)"
proof -
  from import_ok [OF assms(1), of "''INVALID_PARAMETER_VALUE''"]
  obtain n where n: "pb2_import E ''INVALID_PARAMETER_VALUE'' = Inr n"
    by (auto simp: imported_names_def)
  then have nm: "ErrorCode_Name E (PyInt n) = Inr ''INVALID_PARAMETER_VALUE''"
    using Value_Name [OF assms(1)] by (simp add: import_Value)
  from assms(2) obtain mk where mk: "bind_message args kws = Inr mk"
    by (cases "bind_message args kws") (auto simp: invalid_parameter_value_def split: if_splits)
  obtain m rest where mr: "mk = (m, rest)"
    by (cases mk)
  let ?kws = "(''error_code'', PyInt n) # rest"
  from assms(2) mk mr n have built: "MlflowException_init E [m] ?kws = Inr e"
    by (auto simp: invalid_parameter_value_def split: if_splits)
  then have d: "distinct (map fst ?kws)" "''self'' \<notin> set (map fst ?kws)"
    by (auto simp: MlflowException_init_def split: if_splits)
  from built d have "''message'' \<notin> set (map fst ?kws)"
    by (auto simp: MlflowException_init_def split: if_splits)
  with d have ok: "extras_ok rest"
    by (simp add: extras_ok_def)
  from built nm have "e = \<lparr>error_code = ''INVALID_PARAMETER_VALUE'', message = py_str m, json_kwargs = rest\<rparr>"
    by (simp add: init_keyword [OF ok] init_body_eq [OF assms(1)])
  with mk mr ok show ?thesis
    by simp
qed

text \<open>
  C10. Every \<open>MlflowException\<close> that its constructor returns has as \<open>error_code\<close> field a
  name of the enumeration, which is the name that \<open>ErrorCode.Name\<close> gives for the code bound
  to the parameter \<open>error_code\<close>, or \<open>INTERNAL_ERROR\<close>; its message field is the string
  \<open>str(message)\<close> of the value bound to \<open>message\<close>. The constructor returns for every
  message and every code when the extra keyword arguments can be bound. The same holds of
  every \<open>RestException\<close> that its constructor returns (the name is the \<open>error_code\<close>
  string of the response or \<open>INTERNAL_ERROR\<close>), of
  \<open>_UnsupportedMultipartUploadException\<close>, of every exception that
  \<open>invalid_parameter_value\<close> returns, and of the exceptions built with the default code.
\<close>

theorem error_code_invariant:
  assumes "pb2_ok E"
  shows "(\<forall>e. MlflowException_init E args kws = Inr e \<longrightarrow>
              error_code e \<in> set (map fst E) \<and>
              (\<exists>m c. bind_arguments E args kws = Inr (m, c) \<and> message e = py_str m \<and>
                     (ErrorCode_Name E c = Inr (error_code e) \<or> error_code e = ''INTERNAL_ERROR''))) \<and>
         (extras_ok kws \<longrightarrow>
            (\<exists>e. MlflowException_init E [msg, code] kws = Inr e \<and>
                 error_code e \<in> set (map fst E) \<and>
                 (ErrorCode_Name E code = Inr (error_code e) \<or> error_code e = ''INTERNAL_ERROR'') \<and>
                 message e = py_str msg)) \<and>
         (\<forall>r. fst (RestException_init E js) = Inr r \<longrightarrow>
              error_code r \<in> set (map fst E) \<and>
              (dict_get js ''error_code'' (PyStr ''INTERNAL_ERROR'') = PyStr (error_code r) \<or>
               error_code r = ''INTERNAL_ERROR'') \<and>
              message r = rest_message (dict_get js ''error_code'' (PyStr ''INTERNAL_ERROR'')) js) \<and>
         UnsupportedMultipartUploadException_init E =
           Inr \<lparr>error_code = ''NOT_IMPLEMENTED'', message = MESSAGE, json_kwargs = []\<rparr> \<and>
         ''NOT_IMPLEMENTED'' \<in> set (map fst E) \<and>
         (\<forall>e. invalid_parameter_value E args kws = Inr e \<longrightarrow>
              error_code e = ''INVALID_PARAMETER_VALUE'' \<and>
              (\<exists>m rest. bind_message args kws = Inr (m, rest) \<and> message e = py_str m)) \<and>
         ''INVALID_PARAMETER_VALUE'' \<in> set (map fst E) \<and>
         (extras_ok kws \<and> ''cls'' \<notin> set (map fst kws) \<longrightarrow>
            invalid_parameter_value E [msg] kws =
              Inr \<lparr>error_code = ''INVALID_PARAMETER_VALUE'', message = py_str msg, json_kwargs = kws\<rparr>) \<and>
         (extras_ok kws \<longrightarrow>
            MlflowException_init E [msg] kws =
              Inr \<lparr>error_code = ''INTERNAL_ERROR'', message = py_str msg, json_kwargs = kws\<rparr>)"
proof -
  have 1: "\<forall>e. MlflowException_init E args kws = Inr e \<longrightarrow>
              error_code e \<in> set (map fst E) \<and>
              (\<exists>m c. bind_arguments E args kws = Inr (m, c) \<and> message e = py_str m \<and>
                     (ErrorCode_Name E c = Inr (error_code e) \<or> error_code e = ''INTERNAL_ERROR''))"
    using init_invariant [OF assms, of args kws] by blast
  have 2: "extras_ok kws \<longrightarrow>
            (\<exists>e. MlflowException_init E [msg, code] kws = Inr e \<and>
                 error_code e \<in> set (map fst E) \<and>
                 (ErrorCode_Name E code = Inr (error_code e) \<or> error_code e = ''INTERNAL_ERROR'') \<and>
                 message e = py_str msg)"
  proof
    assume "extras_ok kws"
    then have "MlflowException_init E [msg, code] kws = MlflowException_init_body E msg code kws"
      by (rule init_positional)
    with init_body_invariant [OF assms, of msg code kws]
    show "\<exists>e. MlflowException_init E [msg, code] kws = Inr e \<and>
                 error_code e \<in> set (map fst E) \<and>
                 (ErrorCode_Name E code = Inr (error_code e) \<or> error_code e = ''INTERNAL_ERROR'') \<and>
                 message e = py_str msg"
      by auto
  qed
  have 3: "\<forall>r. fst (RestException_init E js) = Inr r \<longrightarrow>
              error_code r \<in> set (map fst E) \<and>
              (dict_get js ''error_code'' (PyStr ''INTERNAL_ERROR'') = PyStr (error_code r) \<or>
               error_code r = ''INTERNAL_ERROR'') \<and>
              message r = rest_message (dict_get js ''error_code'' (PyStr ''INTERNAL_ERROR'')) js"
    using RestException_init_invariant [OF assms] by blast
  have 4: "UnsupportedMultipartUploadException_init E =
           Inr \<lparr>error_code = ''NOT_IMPLEMENTED'', message = MESSAGE, json_kwargs = []\<rparr>"
    unfolding UnsupportedMultipartUploadException_init_def
    using init_imported [OF assms _ extras_ok_Nil, of "''NOT_IMPLEMENTED''" "PyStr MESSAGE"]
    by (simp add: imported_names_def)
  have 5: "''NOT_IMPLEMENTED'' \<in> set (map fst E)" "''INVALID_PARAMETER_VALUE'' \<in> set (map fst E)"
    using assms by (simp_all add: pb2_ok_def imported_names_def)
  have 6: "\<forall>e. invalid_parameter_value E args kws = Inr e \<longrightarrow>
              error_code e = ''INVALID_PARAMETER_VALUE'' \<and>
              (\<exists>m rest. bind_message args kws = Inr (m, rest) \<and> message e = py_str m)"
    using invalid_parameter_value_Inr [OF assms, of args kws] by blast
  have 7: "extras_ok kws \<and> ''cls'' \<notin> set (map fst kws) \<longrightarrow>
            invalid_parameter_value E [msg] kws =
              Inr \<lparr>error_code = ''INVALID_PARAMETER_VALUE'', message = py_str msg, json_kwargs = kws\<rparr>"
    using invalid_parameter_value_ok [OF assms] by blast
  have 8: "extras_ok kws \<longrightarrow>
            MlflowException_init E [msg] kws =
              Inr \<lparr>error_code = ''INTERNAL_ERROR'', message = py_str msg, json_kwargs = kws\<rparr>"
  proof
    assume ok: "extras_ok kws"
    from import_ok [OF assms, of "''INTERNAL_ERROR''"]
    obtain n where n: "pb2_import E ''INTERNAL_ERROR'' = Inr n"
      by (auto simp: imported_names_def)
    then have "ErrorCode_Name E (PyInt n) = Inr ''INTERNAL_ERROR''"
      using Value_Name [OF assms] by (simp add: import_Value)
    with n show "MlflowException_init E [msg] kws =
              Inr \<lparr>error_code = ''INTERNAL_ERROR'', message = py_str msg, json_kwargs = kws\<rparr>"
      by (simp add: init_default [OF ok] init_body_eq [OF assms])
  qed
  from 1 2 3 4 5 6 7 8 show ?thesis
    by blast
qed

theorem error_code_invariant_witness:
  "pb2_ok ErrorCode_sample \<and>
   fst (RestException_init ErrorCode_sample [(''error_code'', PyStr ''TEAPOT''), (''message'', PyInt 418)]) =
     Inr \<lparr>error_code = ''INTERNAL_ERROR'', message = ''TEAPOT: 418'', json_kwargs = [],
          json = [(''error_code'', PyStr ''TEAPOT''), (''message'', PyInt 418)]\<rparr> \<and>
   ''INTERNAL_ERROR'' \<in> set (map fst ErrorCode_sample) \<and>
   extras_ok [(''run_id'', PyInt 7)] \<and> ''cls'' \<notin> set (map fst [(''run_id'', PyInt 7)]) \<and>
   MlflowException_init ErrorCode_sample [PyStr ''gone'', PyInt 11] [(''run_id'', PyInt 7)] =
     Inr \<lparr>error_code = ''NOT_FOUND'', message = ''gone'', json_kwargs = [(''run_id'', PyInt 7)]\<rparr> \<and>
   bind_arguments ErrorCode_sample [PyStr ''gone'', PyInt 11] [(''run_id'', PyInt 7)] =
     Inr (PyStr ''gone'', PyInt 11) \<and>
   ErrorCode_Name ErrorCode_sample (PyInt 11) = Inr ''NOT_FOUND'' \<and>
   ''NOT_FOUND'' \<in> set (map fst ErrorCode_sample) \<and>
   invalid_parameter_value ErrorCode_sample [PyStr ''bad''] [(''run_id'', PyInt 7)] =
     Inr \<lparr>error_code = ''INVALID_PARAMETER_VALUE'', message = ''bad'', json_kwargs = [(''run_id'', PyInt 7)]\<rparr> \<and>
   bind_message [PyStr ''bad''] [(''run_id'', PyInt 7)] = Inr (PyStr ''bad'', [(''run_id'', PyInt 7)])"
proof -
  let ?js = "[(''error_code'', PyStr ''TEAPOT''), (''message'', PyInt 418)]"
  let ?kw = "[(''run_id'', PyInt 7)]"
  have ok: "pb2_ok ErrorCode_sample"
    by (rule pb2_ok_sample)
  have x: "extras_ok ?kw" "''cls'' \<notin> set (map fst ?kw)"
    by (simp_all add: extras_ok_def)
  have r: "fst (RestException_init ErrorCode_sample ?js) =
     Inr \<lparr>error_code = ''INTERNAL_ERROR'', message = ''TEAPOT: 418'', json_kwargs = [], json = ?js\<rparr>"
    by code_simp
  have n: "ErrorCode_Name ErrorCode_sample (PyInt 11) = Inr ''NOT_FOUND''"
    by (simp add: ErrorCode_Name_def c_long_to_int_def ErrorCode_sample_def)
  have g: "MlflowException_init ErrorCode_sample [PyStr ''gone'', PyInt 11] ?kw =
     Inr \<lparr>error_code = ''NOT_FOUND'', message = ''gone'', json_kwargs = ?kw\<rparr>"
    using n by (simp add: init_positional [OF x(1)] init_body_eq [OF ok])
  have b: "bind_arguments ErrorCode_sample [PyStr ''gone'', PyInt 11] ?kw = Inr (PyStr ''gone'', PyInt 11)"
    by simp
  from error_code_invariant [OF ok, of "[PyStr ''gone'', PyInt 11]" ?kw "PyStr ''bad''" "PyInt 11" ?js]
    ok x r n g b
  show ?thesis
    by simp
qed

section \<open>Construction from a wire response\<close>

lemma Value_TypeError_iff: "ErrorCode_Value E v = Inl TypeError \<longleftrightarrow> \<not> hashable v"
  by (cases v) (auto simp: hashable_def split: option.splits)

lemma Value_unknown_name: "s \<notin> fst ` set E \<Longrightarrow> ErrorCode_Value E (PyStr s) = Inl ValueError"
  using map_of_eq_None_iff [of E s] by simp

text \<open>
  C6. Let \<open>code\<close> be the \<open>error_code\<close> entry of the response (the name \<open>INTERNAL_ERROR\<close>
  when there is none). When the response has no \<open>message\<close> key, every exception that
  \<open>RestException.__init__\<close> returns has the message \<open>str(code)\<close>, a colon and a space,
  then \<open>Response: \<close> followed by \<open>str\<close> of the whole response; the constructor
  returns an exception whenever \<open>code\<close> is hashable, in particular a string. When
  \<open>code\<close> is a string that names no member of the enumeration, the constructor does not
  raise: the exception has the code name \<open>INTERNAL_ERROR\<close>, and exactly one warning is
  logged, which quotes the unrecognized code.
\<close>

theorem rest_exception_fallbacks:
  assumes "pb2_ok E" and "code = dict_get js ''error_code'' (PyStr ''INTERNAL_ERROR'')"
  shows "(map_of js ''message'' = None \<longrightarrow>
            (\<forall>r. fst (RestException_init E js) = Inr r \<longrightarrow>
                 message r = py_str code @ '': '' @ ''Response: '' @ py_str (PyDict js))) \<and>
         (hashable code \<longrightarrow> (\<exists>r. fst (RestException_init E js) = Inr r)) \<and>
         (\<forall>s. code = PyStr s \<and> s \<notin> set (map fst E) \<longrightarrow>
              RestException_init E js =
                (Inr \<lparr>error_code = ''INTERNAL_ERROR'', message = rest_message code js,
                      json_kwargs = [], json = js\<rparr>,
                 [unrecognized_warning code]))"
proof (intro conjI impI allI)
  fix r
  assume "map_of js ''message'' = None" and "fst (RestException_init E js) = Inr r"
  with RestException_init_invariant [OF assms(1), of js r] assms(2)
  show "message r = py_str code @ '': '' @ ''Response: '' @ py_str (PyDict js)"
    by (simp add: rest_message_def)
next
  assume "hashable code"
  then have "ErrorCode_Value E code \<noteq> Inl TypeError"
    by (simp add: Value_TypeError_iff)
  with Value_cases [of code E] consider
    (known) s n where "code = PyStr s" "map_of E s = Some n"
    | (unknown) "ErrorCode_Value E code = Inl ValueError"
    by blast
  then show "\<exists>r. fst (RestException_init E js) = Inr r"
  proof cases
    case known
    with assms show ?thesis
      by (simp add: RestException_init_known [OF assms(1) _ known(2)])
  next
    case unknown
    with assms show ?thesis
      by (simp add: RestException_init_unknown [OF assms(1) refl])
  qed
next
  fix s
  assume "code = PyStr s \<and> s \<notin> set (map fst E)"
  then have "ErrorCode_Value E code = Inl ValueError"
    using Value_unknown_name [of s E] by simp
  with assms show "RestException_init E js =
                (Inr \<lparr>error_code = ''INTERNAL_ERROR'', message = rest_message code js,
                      json_kwargs = [], json = js\<rparr>,
                 [unrecognized_warning code])"
    by (simp add: RestException_init_unknown [OF assms(1) refl])
qed

theorem rest_exception_fallbacks_witness:
  \<open>pb2_ok ErrorCode_sample \<and>
   map_of [(''error_code'', PyStr ''TEAPOT''), (''status'', PyInt 418)] ''message'' = None \<and>
   ''TEAPOT'' \<notin> set (map fst ErrorCode_sample) \<and>
   RestException_init ErrorCode_sample [(''error_code'', PyStr ''TEAPOT''), (''status'', PyInt 418)] =
     (Inr \<lparr>error_code = ''INTERNAL_ERROR'',
           message = ''TEAPOT: Response: {'error_code': 'TEAPOT', 'status': 418}'',
           json_kwargs = [],
           json = [(''error_code'', PyStr ''TEAPOT''), (''status'', PyInt 418)]\<rparr>,
      [''Received error code not recognized by MLflow: TEAPOT, this may indicate your request hits error outside the MLflow server, e.g., proxy server, IP blocker or so.''])\<close>
proof -
  let ?js = "[(''error_code'', PyStr ''TEAPOT''), (''status'', PyInt 418)]"
  have ok: "pb2_ok ErrorCode_sample"
    by (rule pb2_ok_sample)
  have code: "PyStr ''TEAPOT'' = dict_get ?js ''error_code'' (PyStr ''INTERNAL_ERROR'')"
    by (simp add: dict_get_def)
  have absent: "''TEAPOT'' \<notin> set (map fst ErrorCode_sample)"
    by (simp add: ErrorCode_sample_def)
  have msg: \<open>rest_message (PyStr ''TEAPOT'') ?js = ''TEAPOT: Response: {'error_code': 'TEAPOT', 'status': 418}''\<close>
    by code_simp
  have warn: "unrecognized_warning (PyStr ''TEAPOT'') = ''Received error code not recognized by MLflow: TEAPOT, this may indicate your request hits error outside the MLflow server, e.g., proxy server, IP blocker or so.''"
    by (simp add: unrecognized_warning_def)
  from rest_exception_fallbacks [OF ok code] ok absent msg warn
  show ?thesis
    by simp
qed


section \<open>Lookup in updated dictionaries\<close>

lemma map_of_dict_setitem: "map_of (dict_setitem k v d) = (map_of d)(k \<mapsto> v)"
  by (induction d) (auto simp: fun_eq_iff)

lemma keys_dict_setitem: "fst ` set (dict_setitem k v d) = insert k (fst ` set d)"
  by (induction d) auto

lemma distinct_dict_setitem:
  "distinct (map fst d) \<Longrightarrow> distinct (map fst (dict_setitem k v d))"
proof (induction d)
  case Nil
  then show ?case by simp
next
  case (Cons p d)
  then show ?case
    using keys_dict_setitem [of k v d] by (auto simp del: keys_dict_setitem)
qed

lemma distinct_invert_items:
  "distinct (map fst d) \<Longrightarrow> distinct (map fst (invert_items items d))"
  by (induction items arbitrary: d) (simp_all add: distinct_dict_setitem)

lemma map_of_dict_update:
  "map_of (dict_update d kw) k = (case map_of (rev kw) k of None \<Rightarrow> map_of d k | Some v \<Rightarrow> Some v)"
proof (induction kw arbitrary: d)
  case Nil
  then show ?case by simp
next
  case (Cons p kw)
  then show ?case
    by (cases p) (simp add: map_of_append map_add_def map_of_dict_setitem split: option.splits)
qed

lemma keys_dict_update: "fst ` set (dict_update d kw) = fst ` set d \<union> fst ` set kw"
  by (induction kw arbitrary: d) (auto simp: keys_dict_setitem)

lemma distinct_dict_update:
  "distinct (map fst d) \<Longrightarrow> distinct (map fst (dict_update d kw))"
  by (induction kw arbitrary: d) (simp_all add: distinct_dict_setitem)

lemma map_of_rev_distinct: "distinct (map fst kw) \<Longrightarrow> map_of (rev kw) = map_of kw"
  by (rule map_of_inject_set [THEN iffD2]) (simp_all add: rev_map [symmetric])


section \<open>The status-to-code table\<close>

lemma reverse_table:
  "HTTP_STATUS_TO_ERROR_CODE =
    [(500, ''INTERNAL_ERROR''), (501, ''NOT_IMPLEMENTED''), (503, ''TEMPORARILY_UNAVAILABLE''),
     (504, ''DEADLINE_EXCEEDED''), (429, ''RESOURCE_EXHAUSTED''), (499, ''CANCELLED''),
     (409, ''ALREADY_EXISTS''), (404, ''ENDPOINT_NOT_FOUND''), (403, ''PERMISSION_DENIED''),
     (401, ''UNAUTHENTICATED''), (400, ''BAD_REQUEST'')]"
  by (simp add: HTTP_STATUS_TO_ERROR_CODE_def HTTP_STATUS_TO_ERROR_CODE_from_def
      ERROR_CODE_TO_HTTP_STATUS_def)

lemma import_eq_Value:
  assumes "pb2_ok E" and "nm \<in> set imported_names"
  shows "ErrorCode_Value E (PyStr nm) = pb2_import E nm"
  using import_ok [OF assms] by (auto simp: pb2_import_def split: option.splits)

lemma import_inj:
  assumes "pb2_ok E" and "pb2_import E a = Inr n" and "pb2_import E b = Inr n"
  shows "a = b"
  using Value_Name [OF assms(1), of a n] Value_Name [OF assms(1), of b n] assms(2,3)
  by (simp add: import_Value)

lemma get_error_code_eq:
  assumes "pb2_ok E"
  shows "get_error_code E status =
           ErrorCode_Value E (PyStr (dict_get HTTP_STATUS_TO_ERROR_CODE status ''INTERNAL_ERROR''))"
  by (simp add: get_error_code_def Name_INTERNAL_ERROR_ok [OF assms])

text \<open>
  C2. Whatever the items from which \<open>HTTP_STATUS_TO_ERROR_CODE\<close> is built, and so for every
  iteration order of the code-to-status table, the result has one name for each status
  (its keys are distinct), and 400, 404 and 500 have the names \<open>BAD_REQUEST\<close>,
  \<open>ENDPOINT_NOT_FOUND\<close> and \<open>INTERNAL_ERROR\<close>; \<open>get_error_code\<close> returns the numbers of
  these members for 400, 404 and 500, and the number of \<open>INTERNAL_ERROR\<close> for every status
  that is not a key of the table. The status of \<open>NOT_FOUND\<close> is mapped back to
  \<open>ENDPOINT_NOT_FOUND\<close>, whose number is not that of \<open>NOT_FOUND\<close>.
\<close>

theorem status_to_code_canonical:
  fixes e :: "'a MlflowException_scheme"
  assumes "pb2_ok E"
  shows "map_of (HTTP_STATUS_TO_ERROR_CODE_from items) 400 = Some ''BAD_REQUEST'' \<and>
         map_of (HTTP_STATUS_TO_ERROR_CODE_from items) 404 = Some ''ENDPOINT_NOT_FOUND'' \<and>
         map_of (HTTP_STATUS_TO_ERROR_CODE_from items) 500 = Some ''INTERNAL_ERROR'' \<and>
         distinct (map fst (HTTP_STATUS_TO_ERROR_CODE_from items)) \<and>
         get_error_code E 400 = pb2_import E ''BAD_REQUEST'' \<and>
         get_error_code E 404 = pb2_import E ''ENDPOINT_NOT_FOUND'' \<and>
         get_error_code E 500 = pb2_import E ''INTERNAL_ERROR'' \<and>
         (status \<notin> set (map fst HTTP_STATUS_TO_ERROR_CODE) \<longrightarrow>
            get_error_code E status = pb2_import E ''INTERNAL_ERROR'') \<and>
         (\<exists>n. pb2_import E ''INTERNAL_ERROR'' = Inr n) \<and>
         get_error_code E (get_http_status_code (e\<lparr>error_code := ''NOT_FOUND''\<rparr>)) =
           pb2_import E ''ENDPOINT_NOT_FOUND'' \<and>
         (\<exists>n. pb2_import E ''ENDPOINT_NOT_FOUND'' = Inr n \<and> ErrorCode_Name E (PyInt n) = Inr ''ENDPOINT_NOT_FOUND'') \<and>
         pb2_import E ''ENDPOINT_NOT_FOUND'' \<noteq> pb2_import E ''NOT_FOUND''"
proof -
  have fixed: "map_of (HTTP_STATUS_TO_ERROR_CODE_from items) 400 = Some ''BAD_REQUEST'' \<and>
         map_of (HTTP_STATUS_TO_ERROR_CODE_from items) 404 = Some ''ENDPOINT_NOT_FOUND'' \<and>
         map_of (HTTP_STATUS_TO_ERROR_CODE_from items) 500 = Some ''INTERNAL_ERROR''"
    by (simp add: HTTP_STATUS_TO_ERROR_CODE_from_def map_of_dict_setitem)
  have one: "distinct (map fst (HTTP_STATUS_TO_ERROR_CODE_from items))"
    by (simp add: HTTP_STATUS_TO_ERROR_CODE_from_def distinct_dict_setitem distinct_invert_items)
  have v400: "get_error_code E 400 = pb2_import E ''BAD_REQUEST''"
    using import_eq_Value [OF assms, of "''BAD_REQUEST''"]
    by (simp add: get_error_code_eq [OF assms] reverse_table dict_get_def imported_names_def)
  have v404: "get_error_code E 404 = pb2_import E ''ENDPOINT_NOT_FOUND''"
    using import_eq_Value [OF assms, of "''ENDPOINT_NOT_FOUND''"]
    by (simp add: get_error_code_eq [OF assms] reverse_table dict_get_def imported_names_def)
  have v500: "get_error_code E 500 = pb2_import E ''INTERNAL_ERROR''"
    using import_eq_Value [OF assms, of "''INTERNAL_ERROR''"]
    by (simp add: get_error_code_eq [OF assms] reverse_table dict_get_def imported_names_def)
  have unmapped: "status \<notin> set (map fst HTTP_STATUS_TO_ERROR_CODE) \<longrightarrow>
            get_error_code E status = pb2_import E ''INTERNAL_ERROR''"
    using import_eq_Value [OF assms, of "''INTERNAL_ERROR''"]
    by (simp add: get_error_code_eq [OF assms] dict_get_absent imported_names_def)
  have internal: "\<exists>n. pb2_import E ''INTERNAL_ERROR'' = Inr n"
    by (rule import_ok [OF assms]) (simp add: imported_names_def)
  have "get_http_status_code (e\<lparr>error_code := ''NOT_FOUND''\<rparr>) = 404"
    by (simp add: get_http_status_code_def dict_get_def ERROR_CODE_TO_HTTP_STATUS_def)
  with v404 have compose: "get_error_code E (get_http_status_code (e\<lparr>error_code := ''NOT_FOUND''\<rparr>)) =
           pb2_import E ''ENDPOINT_NOT_FOUND''"
    by simp
  from import_ok [OF assms, of "''ENDPOINT_NOT_FOUND''"]
  obtain n where n: "pb2_import E ''ENDPOINT_NOT_FOUND'' = Inr n"
    by (auto simp: imported_names_def)
  then have name: "ErrorCode_Name E (PyInt n) = Inr ''ENDPOINT_NOT_FOUND''"
    using Value_Name [OF assms] by (simp add: import_Value)
  have differ: "pb2_import E ''ENDPOINT_NOT_FOUND'' \<noteq> pb2_import E ''NOT_FOUND''"
  proof
    assume "pb2_import E ''ENDPOINT_NOT_FOUND'' = pb2_import E ''NOT_FOUND''"
    with n have "pb2_import E ''NOT_FOUND'' = Inr n" by simp
    from import_inj [OF assms n this] show False by simp
  qed
  from fixed one v400 v404 v500 unmapped internal compose n name differ show ?thesis
    by blast
qed

theorem status_to_code_canonical_witness:
  "pb2_ok ErrorCode_sample \<and>
   418 \<notin> set (map fst HTTP_STATUS_TO_ERROR_CODE) \<and>
   get_error_code ErrorCode_sample 418 = Inr 1 \<and>
   get_error_code ErrorCode_sample 404 = Inr 1001 \<and>
   pb2_import ErrorCode_sample ''NOT_FOUND'' = Inr 11 \<and>
   map_of (HTTP_STATUS_TO_ERROR_CODE_from (rev ERROR_CODE_TO_HTTP_STATUS)) 404 = Some ''ENDPOINT_NOT_FOUND''"
proof -
  have ok: "pb2_ok ErrorCode_sample"
    by (rule pb2_ok_sample)
  have unmapped: "418 \<notin> set (map fst HTTP_STATUS_TO_ERROR_CODE)"
    by (simp add: reverse_table)
  have nums: "pb2_import ErrorCode_sample ''INTERNAL_ERROR'' = Inr 1"
    "pb2_import ErrorCode_sample ''ENDPOINT_NOT_FOUND'' = Inr 1001"
    "pb2_import ErrorCode_sample ''NOT_FOUND'' = Inr 11"
    by (simp_all add: pb2_import_def ErrorCode_sample_def)
  from status_to_code_canonical [OF ok, of "rev ERROR_CODE_TO_HTTP_STATUS" 418
      "\<lparr>error_code = ''NOT_FOUND'', message = ''gone'', json_kwargs = []\<rparr>"]
    ok unmapped nums
  show ?thesis
    by simp
qed


section \<open>Serialization of an exception\<close>

lemma all_ok_Inr:
  "\<forall>x\<in>set xs. \<exists>t. f x = Inr t \<Longrightarrow> \<exists>ts. all_ok (map f xs) = Inr ts"
proof (induction xs)
  case Nil
  then show ?case by simp
next
  case (Cons x xs)
  then obtain t ts where "f x = Inr t" "all_ok (map f xs) = Inr ts"
    by auto
  then show ?case by simp
qed

lemma all_ok_Inl:
  "\<exists>x\<in>set xs. f x = Inl e \<Longrightarrow> \<forall>x\<in>set xs. \<forall>e'. f x = Inl e' \<longrightarrow> e' = e \<Longrightarrow>
   all_ok (map f xs) = Inl e"
proof (induction xs)
  case Nil
  then show ?case by simp
next
  case (Cons x xs)
  show ?case
  proof (cases "f x")
    case (Inl e')
    with Cons.prems(2) show ?thesis by simp
  next
    case (Inr t)
    with Cons.prems have "\<exists>x\<in>set xs. f x = Inl e" "\<forall>x\<in>set xs. \<forall>e'. f x = Inl e' \<longrightarrow> e' = e"
      by auto
    then have "all_ok (map f xs) = Inl e"
      by (rule Cons.IH)
    with Inr show ?thesis by simp
  qed
qed

text \<open>\<open>json.dumps\<close> returns a text for a serializable value, and raises \<open>TypeError\<close> for any other.\<close>

lemma json_dumps_cases:
  "(json_serializable v \<longrightarrow> (\<exists>t. json_dumps v = Inr t)) \<and>
   (\<not> json_serializable v \<longrightarrow> json_dumps v = Inl TypeError)"
proof (induction v rule: json_dumps.induct)
  case (5 xs)
  show ?case
  proof (cases "list_all json_serializable xs")
    case True
    with 5 have "\<forall>x\<in>set xs. \<exists>t. json_dumps x = Inr t"
      by (simp add: list_all_iff)
    from all_ok_Inr [OF this] True show ?thesis
      by auto
  next
    case False
    with 5 have "\<exists>x\<in>set xs. json_dumps x = Inl TypeError"
      by (auto simp: list_all_iff)
    moreover from 5 have "\<forall>x\<in>set xs. \<forall>e'. json_dumps x = Inl e' \<longrightarrow> e' = TypeError"
      by (metis Inl_Inr_False sum.inject(1))
    ultimately have "all_ok (map json_dumps xs) = Inl TypeError"
      by (rule all_ok_Inl)
    with False show ?thesis
      by simp
  qed
next
  case (6 kvs)
  let ?f = "\<lambda>p. case json_dumps (snd p) of Inl e \<Rightarrow> Inl e
                 | Inr s \<Rightarrow> Inr (json_string (fst p) @ '': '' @ s)"
  show ?case
  proof (cases "list_all (\<lambda>p. json_serializable (snd p)) kvs")
    case True
    with 6 have "\<forall>p\<in>set kvs. \<exists>t. ?f p = Inr t"
      by (fastforce simp: list_all_iff)
    from all_ok_Inr [OF this] True show ?thesis
      by auto
  next
    case False
    then obtain p where p: "p \<in> set kvs" "\<not> json_serializable (snd p)"
      by (auto simp: list_all_iff)
    with 6 have "json_dumps (snd p) = Inl TypeError"
      by blast
    then have "?f p = Inl TypeError"
      by simp
    with p(1) have "\<exists>p\<in>set kvs. ?f p = Inl TypeError"
      by blast
    moreover have "\<forall>p\<in>set kvs. \<forall>e'. ?f p = Inl e' \<longrightarrow> e' = TypeError"
    proof (intro ballI allI impI)
      fix p e'
      assume p: "p \<in> set kvs" and "?f p = Inl e'"
      then have "json_dumps (snd p) = Inl e'"
        by (simp split: sum.splits)
      with 6 [OF p] show "e' = TypeError"
        by (cases "json_serializable (snd p)") auto
    qed
    ultimately have "all_ok (map ?f kvs) = Inl TypeError"
      by (rule all_ok_Inl)
    with False show ?thesis
      by simp
  qed
qed simp_all

lemma dict_update_new: "distinct (map fst (d @ kw)) \<Longrightarrow> dict_update d kw = d @ kw"
proof (induction kw arbitrary: d)
  case Nil
  then show ?case by simp
next
  case (Cons p kw)
  obtain k v where p: "p = (k, v)"
    by (cases p)
  from Cons.prems p have "k \<notin> fst ` set d"
    by auto
  then have "dict_setitem k v d = d @ [(k, v)]"
    by (rule dict_setitem_new)
  moreover from Cons.prems p have "distinct (map fst ((d @ [(k, v)]) @ kw))"
    by auto
  ultimately show ?case
    using Cons.IH [of "d @ [(k, v)]"] p by simp
qed

lemma bind_message_Inl: "bind_message args kws = Inl err \<Longrightarrow> err = TypeError"
  by (induction args kws rule: bind_message.induct) (auto split: option.splits if_splits)

lemma bind_message_keeps:
  "bind_message args kws = Inr (m, r) \<Longrightarrow> k \<noteq> ''message'' \<Longrightarrow> k \<in> fst ` set kws \<Longrightarrow>
   k \<in> fst ` set r"
  by (induction args kws rule: bind_message.induct) (auto split: option.splits if_splits)

lemma exception_dict_extras:
  assumes "extras_ok (json_kwargs e)"
  shows "exception_dict e =
           [(''error_code'', PyStr (error_code e)), (''message'', PyStr (message e))] @ json_kwargs e"
  unfolding exception_dict_def
  using assms by (intro dict_update_new) (auto simp: extras_ok_def)

lemma serialize_extras:
  assumes "extras_ok (json_kwargs e)"
  shows "(list_all (\<lambda>p. json_serializable (snd p)) (json_kwargs e) \<longrightarrow>
            (\<exists>text. serialize_as_json e = Inr text)) \<and>
         (\<not> list_all (\<lambda>p. json_serializable (snd p)) (json_kwargs e) \<longrightarrow>
            serialize_as_json e = Inl TypeError)"
  using json_dumps_cases [of "PyDict (exception_dict e)"]
  by (simp add: serialize_as_json_def exception_dict_extras [OF assms])

text \<open>
  C4, the claim as the specification states it, refuted. An extra named \<open>message\<close> cannot
  be passed at construction: with the message given by position, the call raises
  \<open>TypeError\<close> (the parameter \<open>message\<close> gets two values), and so does
  \<open>invalid_parameter_value\<close> with an extra named \<open>error_code\<close>; no exception is built whose
  reserved key is overwritten. And \<open>serialize_as_json\<close> does not produce a JSON object for
  every exception: the one built with an extra whose value \<open>json.dumps\<close> cannot serialize
  makes it raise \<open>TypeError\<close>.
\<close>

theorem serialize_counterexample:
  "MlflowException_init ErrorCode_sample [PyStr ''bad input'', PyInt 1000] [(''message'', PyStr ''mine'')] =
     Inl TypeError \<and>
   invalid_parameter_value ErrorCode_sample [PyStr ''bad input''] [(''error_code'', PyInt 11)] =
     Inl TypeError \<and>
   MlflowException_init ErrorCode_sample [PyStr ''bad input'', PyInt 1000] [(''cause'', PyObject ''boom'' ''ValueError('boom')'')] =
     Inr \<lparr>error_code = ''INVALID_PARAMETER_VALUE'', message = ''bad input'',
          json_kwargs = [(''cause'', PyObject ''boom'' ''ValueError('boom')'')]\<rparr> \<and>
   serialize_as_json \<lparr>error_code = ''INVALID_PARAMETER_VALUE'', message = ''bad input'',
                       json_kwargs = [(''cause'', PyObject ''boom'' ''ValueError('boom')'')]\<rparr> =
     Inl TypeError"
proof -
  let ?kw = "[(''cause'', PyObject ''boom'' ''ValueError('boom')'')]"
  have a: "MlflowException_init ErrorCode_sample [PyStr ''bad input'', PyInt 1000] [(''message'', PyStr ''mine'')] =
     Inl TypeError"
    by (simp add: MlflowException_init_def)
  have b: "invalid_parameter_value ErrorCode_sample [PyStr ''bad input''] [(''error_code'', PyInt 11)] =
     Inl TypeError"
    by (simp add: invalid_parameter_value_def MlflowException_init_def pb2_import_def ErrorCode_sample_def)
  have x: "extras_ok ?kw"
    by (simp add: extras_ok_def)
  have n: "ErrorCode_Name ErrorCode_sample (PyInt 1000) = Inr ''INVALID_PARAMETER_VALUE''"
    by (simp add: ErrorCode_Name_def c_long_to_int_def ErrorCode_sample_def)
  have c: "MlflowException_init ErrorCode_sample [PyStr ''bad input'', PyInt 1000] ?kw =
     Inr \<lparr>error_code = ''INVALID_PARAMETER_VALUE'', message = ''bad input'', json_kwargs = ?kw\<rparr>"
    using n by (simp add: init_positional [OF x] init_body_eq [OF pb2_ok_sample])
  have d: "serialize_as_json \<lparr>error_code = ''INVALID_PARAMETER_VALUE'', message = ''bad input'',
                       json_kwargs = ?kw\<rparr> = Inl TypeError"
    by (simp add: serialize_as_json_def exception_dict_def)
  from a b c d show ?thesis
    by simp
qed

text \<open>
  C4, amended. The extras of every exception that \<open>MlflowException.__init__\<close> returns are
  the keyword arguments of the call other than \<open>message\<close> and \<open>error_code\<close>, in their
  order; their names are distinct, and none is \<open>message\<close> or \<open>error_code\<close>: a call that
  gives \<open>message\<close> or \<open>error_code\<close> both by position and by keyword raises \<open>TypeError\<close>,
  and so does \<open>invalid_parameter_value\<close> with a keyword \<open>error_code\<close>. For such an
  exception \<open>serialize_as_json\<close> renders with \<open>json.dumps\<close> the dictionary that binds
  \<open>error_code\<close> to the exception's code name and \<open>message\<close> to its message, followed by
  the extras, each bound to its value: it returns a text when \<open>json.dumps\<close> can serialize
  the value of every extra, and raises \<open>TypeError\<close> otherwise. The exception built with
  the message \<open>bad input\<close>, the code \<open>INVALID_PARAMETER_VALUE\<close> and no extras serializes
  to \<open>{"error_code": "INVALID_PARAMETER_VALUE", "message": "bad input"}\<close>, and its HTTP
  status is 400.
\<close>

theorem serialize_constructed:
  assumes "pb2_ok E"
  shows \<open>(\<forall>e. MlflowException_init E args kws = Inr e \<longrightarrow>
              json_kwargs e = extra_keywords kws \<and>
              distinct (map fst (json_kwargs e)) \<and>
              ''message'' \<notin> set (map fst (json_kwargs e)) \<and>
              ''error_code'' \<notin> set (map fst (json_kwargs e)) \<and>
              exception_dict e =
                [(''error_code'', PyStr (error_code e)), (''message'', PyStr (message e))] @ json_kwargs e \<and>
              serialize_as_json e =
                json_dumps (PyDict ([(''error_code'', PyStr (error_code e)), (''message'', PyStr (message e))] @
                                    json_kwargs e)) \<and>
              (list_all (\<lambda>p. json_serializable (snd p)) (json_kwargs e) \<longrightarrow>
                 (\<exists>text. serialize_as_json e = Inr text)) \<and>
              (\<not> list_all (\<lambda>p. json_serializable (snd p)) (json_kwargs e) \<longrightarrow>
                 serialize_as_json e = Inl TypeError)) \<and>
         (''message'' \<in> set (map fst kws) \<longrightarrow> MlflowException_init E (msg # rest) kws = Inl TypeError) \<and>
         (''error_code'' \<in> set (map fst kws) \<longrightarrow>
            MlflowException_init E (msg # code # rest) kws = Inl TypeError \<and>
            invalid_parameter_value E args kws = Inl TypeError) \<and>
         (\<exists>x. invalid_parameter_value E [PyStr ''bad input''] [] = Inr x \<and>
              error_code x = ''INVALID_PARAMETER_VALUE'' \<and> message x = ''bad input'' \<and>
              json_kwargs x = [] \<and>
              serialize_as_json x = Inr ''{"error_code": "INVALID_PARAMETER_VALUE", "message": "bad input"}'' \<and>
              get_http_status_code x = 400)\<close>
proof -
  have 1: "\<forall>e. MlflowException_init E args kws = Inr e \<longrightarrow>
              json_kwargs e = extra_keywords kws \<and>
              distinct (map fst (json_kwargs e)) \<and>
              ''message'' \<notin> set (map fst (json_kwargs e)) \<and>
              ''error_code'' \<notin> set (map fst (json_kwargs e)) \<and>
              exception_dict e =
                [(''error_code'', PyStr (error_code e)), (''message'', PyStr (message e))] @ json_kwargs e \<and>
              serialize_as_json e =
                json_dumps (PyDict ([(''error_code'', PyStr (error_code e)), (''message'', PyStr (message e))] @
                                    json_kwargs e)) \<and>
              (list_all (\<lambda>p. json_serializable (snd p)) (json_kwargs e) \<longrightarrow>
                 (\<exists>text. serialize_as_json e = Inr text)) \<and>
              (\<not> list_all (\<lambda>p. json_serializable (snd p)) (json_kwargs e) \<longrightarrow>
                 serialize_as_json e = Inl TypeError)"
  proof (intro allI impI)
    fix e
    assume "MlflowException_init E args kws = Inr e"
    from init_invariant [OF assms this]
    have k: "json_kwargs e = extra_keywords kws" and ok: "extras_ok (json_kwargs e)"
      by blast+
    from ok have d: "distinct (map fst (json_kwargs e))" "''message'' \<notin> set (map fst (json_kwargs e))"
      "''error_code'' \<notin> set (map fst (json_kwargs e))"
      by (simp_all add: extras_ok_def)
    have s: "serialize_as_json e =
                json_dumps (PyDict ([(''error_code'', PyStr (error_code e)), (''message'', PyStr (message e))] @
                                    json_kwargs e))"
      by (simp add: serialize_as_json_def exception_dict_extras [OF ok])
    from k d s exception_dict_extras [OF ok] serialize_extras [OF ok]
    show "json_kwargs e = extra_keywords kws \<and>
              distinct (map fst (json_kwargs e)) \<and>
              ''message'' \<notin> set (map fst (json_kwargs e)) \<and>
              ''error_code'' \<notin> set (map fst (json_kwargs e)) \<and>
              exception_dict e =
                [(''error_code'', PyStr (error_code e)), (''message'', PyStr (message e))] @ json_kwargs e \<and>
              serialize_as_json e =
                json_dumps (PyDict ([(''error_code'', PyStr (error_code e)), (''message'', PyStr (message e))] @
                                    json_kwargs e)) \<and>
              (list_all (\<lambda>p. json_serializable (snd p)) (json_kwargs e) \<longrightarrow>
                 (\<exists>text. serialize_as_json e = Inr text)) \<and>
              (\<not> list_all (\<lambda>p. json_serializable (snd p)) (json_kwargs e) \<longrightarrow>
                 serialize_as_json e = Inl TypeError)"
      by blast
  qed
  have 2: "''message'' \<in> set (map fst kws) \<longrightarrow> MlflowException_init E (msg # rest) kws = Inl TypeError"
    using init_collision(1) [of kws E msg rest] by blast
  have 3: "''error_code'' \<in> set (map fst kws) \<longrightarrow>
            MlflowException_init E (msg # code # rest) kws = Inl TypeError \<and>
            invalid_parameter_value E args kws = Inl TypeError"
  proof
    assume c: "''error_code'' \<in> set (map fst kws)"
    have "invalid_parameter_value E args kws = Inl TypeError"
    proof (cases "invalid_parameter_value E args kws")
      case (Inl err)
      from import_ok [OF assms, of "''INVALID_PARAMETER_VALUE''"]
      obtain n where n: "pb2_import E ''INVALID_PARAMETER_VALUE'' = Inr n"
        by (auto simp: imported_names_def)
      show ?thesis
      proof (cases "\<not> distinct (map fst kws) \<or> ''cls'' \<in> set (map fst kws)")
        case True
        then show ?thesis
          by (simp add: invalid_parameter_value_def)
      next
        case False
        show ?thesis
        proof (cases "bind_message args kws")
          case e: (Inl err')
          then have "err' = TypeError"
            by (rule bind_message_Inl)
          with e False show ?thesis
            by (simp add: invalid_parameter_value_def)
        next
          case (Inr mk)
          then have "''error_code'' \<in> set (map fst (snd mk))"
            using c bind_message_keeps [of args kws "fst mk" "snd mk" "''error_code''"] by simp
          then have "MlflowException_init E [fst mk] ((''error_code'', PyInt n) # snd mk) = Inl TypeError"
            by (intro init_collision(4)) simp
          with Inr False n show ?thesis
            by (simp add: invalid_parameter_value_def)
        qed
      qed
    next
      case (Inr e)
      from invalid_parameter_value_Inr [OF assms Inr]
      obtain m r where mr: "bind_message args kws = Inr (m, r)" "extras_ok r"
        by blast
      then have "''error_code'' \<in> set (map fst r)"
        using c bind_message_keeps [of args kws m r "''error_code''"] by simp
      with mr(2) show ?thesis
        by (simp add: extras_ok_def)
    qed
    with init_collision(2) [OF c] show "MlflowException_init E (msg # code # rest) kws = Inl TypeError \<and>
            invalid_parameter_value E args kws = Inl TypeError"
      by simp
  qed
  have 4: \<open>\<exists>x. invalid_parameter_value E [PyStr ''bad input''] [] = Inr x \<and>
              error_code x = ''INVALID_PARAMETER_VALUE'' \<and> message x = ''bad input'' \<and>
              json_kwargs x = [] \<and>
              serialize_as_json x = Inr ''{"error_code": "INVALID_PARAMETER_VALUE", "message": "bad input"}'' \<and>
              get_http_status_code x = 400\<close>
  proof -
    let ?x = "\<lparr>error_code = ''INVALID_PARAMETER_VALUE'', message = ''bad input'', json_kwargs = []\<rparr>"
    have built: "invalid_parameter_value E [PyStr ''bad input''] [] = Inr ?x"
      using invalid_parameter_value_ok [OF assms extras_ok_Nil, of "PyStr ''bad input''"] by simp
    have rendered: \<open>serialize_as_json ?x = Inr ''{"error_code": "INVALID_PARAMETER_VALUE", "message": "bad input"}''\<close>
      by code_simp
    have status: "get_http_status_code ?x = 400"
      by (simp add: get_http_status_code_def dict_get_def ERROR_CODE_TO_HTTP_STATUS_def)
    from built rendered status show ?thesis
      by simp
  qed
  from 1 2 3 4 show ?thesis
    by blast
qed

theorem serialize_constructed_witness:
  \<open>pb2_ok ErrorCode_sample \<and>
   MlflowException_init ErrorCode_sample [PyStr ''gone'', PyInt 11] [(''run_id'', PyInt 7), (''retry'', PyBool False)] =
     Inr \<lparr>error_code = ''NOT_FOUND'', message = ''gone'',
          json_kwargs = [(''run_id'', PyInt 7), (''retry'', PyBool False)]\<rparr> \<and>
   list_all (\<lambda>p. json_serializable (snd p)) [(''run_id'', PyInt 7), (''retry'', PyBool False)] \<and>
   serialize_as_json \<lparr>error_code = ''NOT_FOUND'', message = ''gone'',
                       json_kwargs = [(''run_id'', PyInt 7), (''retry'', PyBool False)]\<rparr> =
     Inr ''{"error_code": "NOT_FOUND", "message": "gone", "run_id": 7, "retry": false}'' \<and>
   ''error_code'' \<in> set (map fst [(''error_code'', PyInt 11)]) \<and>
   MlflowException_init ErrorCode_sample [PyStr ''gone'', PyInt 11] [(''error_code'', PyInt 11)] = Inl TypeError \<and>
   invalid_parameter_value ErrorCode_sample [PyStr ''bad input''] [] =
     Inr \<lparr>error_code = ''INVALID_PARAMETER_VALUE'', message = ''bad input'', json_kwargs = []\<rparr>\<close>
proof -
  let ?kw = "[(''run_id'', PyInt 7), (''retry'', PyBool False)]"
  let ?e = "\<lparr>error_code = ''NOT_FOUND'', message = ''gone'', json_kwargs = ?kw\<rparr>"
  have ok: "pb2_ok ErrorCode_sample"
    by (rule pb2_ok_sample)
  have x: "extras_ok ?kw"
    by (simp add: extras_ok_def)
  have n: "ErrorCode_Name ErrorCode_sample (PyInt 11) = Inr ''NOT_FOUND''"
    by (simp add: ErrorCode_Name_def c_long_to_int_def ErrorCode_sample_def)
  have g: "MlflowException_init ErrorCode_sample [PyStr ''gone'', PyInt 11] ?kw = Inr ?e"
    using n by (simp add: init_positional [OF x] init_body_eq [OF ok])
  have l: "list_all (\<lambda>p. json_serializable (snd p)) ?kw"
    by simp
  have s: \<open>serialize_as_json ?e =
     Inr ''{"error_code": "NOT_FOUND", "message": "gone", "run_id": 7, "retry": false}''\<close>
    by code_simp
  have c: "''error_code'' \<in> set (map fst [(''error_code'', PyInt 11)])"
    by simp
  have b: "invalid_parameter_value ErrorCode_sample [PyStr ''bad input''] [] =
     Inr \<lparr>error_code = ''INVALID_PARAMETER_VALUE'', message = ''bad input'', json_kwargs = []\<rparr>"
    using invalid_parameter_value_ok [OF ok extras_ok_Nil, of "PyStr ''bad input''"] by simp
  have u: "\<exists>text. serialize_as_json ?e = Inr text"
    using serialize_constructed [OF ok, of "[PyStr ''gone'', PyInt 11]" ?kw, THEN conjunct1, rule_format, OF g] l
    by simp
  have t: "MlflowException_init ErrorCode_sample [PyStr ''gone'', PyInt 11] [(''error_code'', PyInt 11)] =
     Inl TypeError"
    using serialize_constructed [OF ok, where kws = "[(''error_code'', PyInt 11)]" and msg = "PyStr ''gone''"
        and code = "PyInt 11" and rest = "[]"] c
    by blast
  from ok g l s c t b u show ?thesis
    by simp
qed

section \<open>The dataset digest\<close>

lemma length_md5_digest: "length (md5_digest msg) = 16"
  by (simp add: md5_digest_def bytes_le_def split: prod.splits)

lemma length_concat_hex: "length (concat (map hex_byte bs)) = 2 * length bs"
  by (induction bs) (simp_all add: hex_byte_def)

lemma length_md5_hexdigest: "length (md5_hexdigest msg) = 32"
  by (simp add: md5_hexdigest_def length_concat_hex length_md5_digest)

text \<open>The text that \<open>json.dumps\<close> gives for the dictionary of \<open>_compute_digest\<close>: it never raises.\<close>

lemma json_dumps_config:
  "json_dumps (PyDict [(''name'', PyStr a), (''source'', PyStr b), (''source_type'', PyStr c)]) =
     Inr (''{'' @ join '', '' [json_string ''name'' @ '': '' @ json_string a,
                              json_string ''source'' @ '': '' @ json_string b,
                              json_string ''source_type'' @ '': '' @ json_string c] @ ''}'')"
  by simp

lemma compute_digest_Source:
  "source self = Source s \<Longrightarrow>
   compute_digest self =
     Inr (take 8 (md5_hexdigest (encode_utf8
       (''{'' @ join '', '' [json_string ''name'' @ '': '' @ json_string (name self),
                            json_string ''source'' @ '': '' @ json_string (to_json s),
                            json_string ''source_type'' @ '': '' @ json_string (get_source_type s)] @ ''}''))))"
  by (simp add: compute_digest_def call_to_json_def call_get_source_type_def)

lemma compute_digest_NotASource:
  "source self = NotASource v \<Longrightarrow> compute_digest self = Inl AttributeError"
  by (simp add: compute_digest_def call_to_json_def)

text \<open>The model of MD5 on a test vector of RFC 1321, and the digest of a dataset.\<close>

lemma md5_abc: "md5_hexdigest [97, 98, 99] = ''900150983cd24fb0d6963f7d28e17f72''"
  by code_simp

lemma s3_example_digest:
  \<open>take 8 (md5_hexdigest (encode_utf8
     (''{'' @ join '', '' [json_string ''name'' @ '': '' @ json_string ''dataset'',
                          json_string ''source'' @ '': '' @ json_string ''{"uri": "s3://b/k"}'',
                          json_string ''source_type'' @ '': '' @ json_string ''s3''] @ ''}''))) = ''27f3d7d3''\<close>
  by code_simp

lemma Dataset_init_supplied:
  "d \<noteq> [] \<Longrightarrow>
   Dataset_init src nm (Some d) = Inr \<lparr>attr_name = nm, attr_source = src, attr_digest = d\<rparr>"
  by (simp add: Dataset_init_def Dataset_attrs.extend_def)

lemma Dataset_init_computed:
  "dg = None \<or> dg = Some [] \<Longrightarrow>
   Dataset_init src nm dg =
     bind_err (compute_digest \<lparr>attr_name = nm, attr_source = src\<rparr>)
       (\<lambda>d. Inr \<lparr>attr_name = nm, attr_source = src, attr_digest = d\<rparr>)"
  by (auto simp: Dataset_init_def Dataset_attrs.extend_def)

lemma Dataset_init_Source:
  "\<exists>d. Dataset_init (Source s) nm dg = Inr \<lparr>attr_name = nm, attr_source = Source s, attr_digest = d\<rparr> \<and>
       (dg = None \<or> dg = Some [] \<longrightarrow> length d = 8)"
proof (cases "dg = None \<or> dg = Some []")
  case True
  have "source \<lparr>attr_name = nm, attr_source = Source s\<rparr> = Source s"
    by (simp add: source_def)
  with True show ?thesis
    by (simp add: Dataset_init_computed compute_digest_Source length_md5_hexdigest)
next
  case False
  then obtain d where "dg = Some d" "d \<noteq> []"
    by (cases dg) auto
  with False show ?thesis
    by (simp add: Dataset_init_supplied)
qed

lemma Dataset_init_name:
  "Dataset_init src nm dg = Inr d \<Longrightarrow> attr_name d = nm \<and> attr_source d = src"
  by (auto simp: Dataset_init_def Dataset_attrs.extend_def bind_err_def Let_def
      split: option.splits if_splits sum.splits)

text \<open>
  C1. \<open>_compute_digest\<close> reads the name property and the two results of the source, and
  nothing else of the object: two descriptors with the same name, whose sources return
  the same \<open>to_json()\<close> and \<open>_get_source_type()\<close>, have the same digest, whatever their
  other attributes; so has one descriptor on two calls. The digest is a string of length 8.
\<close>

theorem compute_digest_deterministic:
  fixes d1 :: "'a Dataset_attrs_scheme" and d2 :: "'b Dataset_attrs_scheme"
  assumes "name d1 = name d2"
    and "source d1 = Source s1" and "source d2 = Source s2"
    and "to_json s1 = to_json s2" and "get_source_type s1 = get_source_type s2"
  shows "\<exists>dg. compute_digest d1 = Inr dg \<and> compute_digest d2 = Inr dg \<and> length dg = 8"
  using assms by (simp add: compute_digest_Source length_md5_hexdigest)

theorem compute_digest_deterministic_witness:
  \<open>name \<lparr>attr_name = None, attr_source = Source \<lparr>to_json = ''{"uri": "s3://b/k"}'', get_source_type = ''s3''\<rparr>\<rparr> =
   name \<lparr>attr_name = Some ''dataset'',
         attr_source = Source \<lparr>to_json = ''{"uri": "s3://b/k"}'', get_source_type = ''s3''\<rparr>,
         attr_digest = ''stale''\<rparr> \<and>
   compute_digest \<lparr>attr_name = None,
                   attr_source = Source \<lparr>to_json = ''{"uri": "s3://b/k"}'', get_source_type = ''s3''\<rparr>\<rparr> =
     Inr ''27f3d7d3'' \<and>
   compute_digest \<lparr>attr_name = Some ''dataset'',
                   attr_source = Source \<lparr>to_json = ''{"uri": "s3://b/k"}'', get_source_type = ''s3''\<rparr>,
                   attr_digest = ''stale''\<rparr> =
     Inr ''27f3d7d3''\<close>
proof -
  let ?s = \<open>\<lparr>to_json = ''{"uri": "s3://b/k"}'', get_source_type = ''s3''\<rparr>\<close>
  let ?d1 = "\<lparr>attr_name = None, attr_source = Source ?s\<rparr>"
  let ?d2 = "\<lparr>attr_name = Some ''dataset'', attr_source = Source ?s, attr_digest = ''stale''\<rparr>"
  have n: "name ?d1 = name ?d2"
    by (simp add: name_def)
  have s1: "source ?d1 = Source ?s" and s2: "source ?d2 = Source ?s"
    by (simp_all add: source_def)
  have v: "compute_digest ?d1 = Inr ''27f3d7d3''"
    using s3_example_digest by (simp add: compute_digest_Source [OF s1] name_def)
  from compute_digest_deterministic [OF n s1 s2 refl refl] n v
  show ?thesis
    by auto
qed

section \<open>The name and the digest of a constructed dataset\<close>

text \<open>
  C9. A descriptor constructed from a source with \<open>name=None\<close> and no digest has the name
  \<open>dataset\<close> and a digest of length 8, which is what \<open>_compute_digest\<close> returns on it; with
  a name supplied, the name property returns that name. The name property of every
  constructed descriptor is the supplied name, or \<open>dataset\<close> when it is \<open>None\<close>, whatever
  the source and the digest argument.
\<close>

theorem name_placeholder_and_digest_length:
  "(\<exists>d. Dataset_init (Source s) None None = Inr d \<and> name d = ''dataset'' \<and>
        length (digest d) = 8 \<and> compute_digest d = Inr (digest d)) \<and>
   (\<exists>d. Dataset_init (Source s) (Some n) None = Inr d \<and> name d = n \<and> length (digest d) = 8) \<and>
   (\<forall>d. Dataset_init src None dg = Inr d \<longrightarrow> name d = ''dataset'') \<and>
   (\<forall>d. Dataset_init src (Some n) dg = Inr d \<longrightarrow> name d = n)"
proof (intro conjI allI impI)
  from Dataset_init_Source [of s None None]
  obtain c where c: "Dataset_init (Source s) None None =
      Inr \<lparr>attr_name = None, attr_source = Source s, attr_digest = c\<rparr>" "length c = 8"
    by auto
  let ?d = "\<lparr>attr_name = None, attr_source = Source s, attr_digest = c\<rparr>"
  have src: "source \<lparr>attr_name = None, attr_source = Source s\<rparr> = Source s" "source ?d = Source s"
    by (simp_all add: source_def)
  from c(1) have "compute_digest \<lparr>attr_name = None, attr_source = Source s\<rparr> = Inr c"
    by (simp add: Dataset_init_computed compute_digest_Source [OF src(1)])
  then have "compute_digest ?d = Inr c"
    by (simp add: compute_digest_Source [OF src(1)] compute_digest_Source [OF src(2)] name_def)
  with c show "\<exists>d. Dataset_init (Source s) None None = Inr d \<and> name d = ''dataset'' \<and>
        length (digest d) = 8 \<and> compute_digest d = Inr (digest d)"
    by (simp add: name_def digest_def)
next
  from Dataset_init_Source [of s "Some n" None]
  show "\<exists>d. Dataset_init (Source s) (Some n) None = Inr d \<and> name d = n \<and> length (digest d) = 8"
    by (auto simp: name_def digest_def)
next
  fix d assume "Dataset_init src None dg = Inr d"
  from Dataset_init_name [OF this] show "name d = ''dataset''"
    by (simp add: name_def)
next
  fix d assume "Dataset_init src (Some n) dg = Inr d"
  from Dataset_init_name [OF this] show "name d = n"
    by (simp add: name_def)
qed

theorem name_placeholder_and_digest_length_witness:
  "Dataset_init (NotASource PyNone) None (Some ''0a1b2c3d'') =
     Inr \<lparr>attr_name = None, attr_source = NotASource PyNone, attr_digest = ''0a1b2c3d''\<rparr> \<and>
   name \<lparr>attr_name = None, attr_source = NotASource PyNone, attr_digest = ''0a1b2c3d''\<rparr> = ''dataset'' \<and>
   Dataset_init (Source \<lparr>to_json = ''{}'', get_source_type = ''s3''\<rparr>) (Some ''iris'') (Some ''0a1b2c3d'') =
     Inr \<lparr>attr_name = Some ''iris'', attr_source = Source \<lparr>to_json = ''{}'', get_source_type = ''s3''\<rparr>,
          attr_digest = ''0a1b2c3d''\<rparr> \<and>
   name \<lparr>attr_name = Some ''iris'', attr_source = Source \<lparr>to_json = ''{}'', get_source_type = ''s3''\<rparr>,
         attr_digest = ''0a1b2c3d''\<rparr> = ''iris''"
proof -
  have a: "Dataset_init (NotASource PyNone) None (Some ''0a1b2c3d'') =
     Inr \<lparr>attr_name = None, attr_source = NotASource PyNone, attr_digest = ''0a1b2c3d''\<rparr>"
    by (simp add: Dataset_init_supplied)
  have b: "Dataset_init (Source \<lparr>to_json = ''{}'', get_source_type = ''s3''\<rparr>) (Some ''iris'') (Some ''0a1b2c3d'') =
     Inr \<lparr>attr_name = Some ''iris'', attr_source = Source \<lparr>to_json = ''{}'', get_source_type = ''s3''\<rparr>,
          attr_digest = ''0a1b2c3d''\<rparr>"
    by (simp add: Dataset_init_supplied)
  from name_placeholder_and_digest_length [of "\<lparr>to_json = ''{}'', get_source_type = ''s3''\<rparr>" "''iris''"
      "NotASource PyNone" "Some ''0a1b2c3d''"]
    name_placeholder_and_digest_length [of "\<lparr>to_json = ''{}'', get_source_type = ''s3''\<rparr>" "''iris''"
      "Source \<lparr>to_json = ''{}'', get_source_type = ''s3''\<rparr>" "Some ''0a1b2c3d''"]
    a b
  show ?thesis
    by simp
qed


section \<open>Construction without validation\<close>

text \<open>
  C7. \<open>Dataset.__init__\<close> does not validate its source. The claim that an absent source
  makes construction fail whether or not a digest is supplied is false: with a digest
  and the source \<open>None\<close> the constructor returns a descriptor.
\<close>

theorem source_not_validated_counterexample:
  "Dataset_init (NotASource PyNone) None (Some ''498c7496'') =
     Inr \<lparr>attr_name = None, attr_source = NotASource PyNone, attr_digest = ''498c7496''\<rparr>"
  by (simp add: Dataset_init_def Dataset_attrs.extend_def)

text \<open>
  C7, as amended. When a non-empty digest is supplied, construction succeeds for every
  source argument and stores it unchanged. When the digest is omitted or empty and the
  source is a value without the method \<open>to_json\<close> (\<open>None\<close>, a string, ...), construction
  fails with the \<open>AttributeError\<close> of the digest computation.
\<close>

theorem source_not_validated:
  "(d \<noteq> [] \<longrightarrow>
      Dataset_init src nm (Some d) = Inr \<lparr>attr_name = nm, attr_source = src, attr_digest = d\<rparr>) \<and>
   Dataset_init (NotASource v) nm None = Inl AttributeError \<and>
   Dataset_init (NotASource v) nm (Some []) = Inl AttributeError"
proof -
  have "source \<lparr>attr_name = nm, attr_source = NotASource v\<rparr> = NotASource v"
    by (simp add: source_def)
  then have "compute_digest \<lparr>attr_name = nm, attr_source = NotASource v\<rparr> = Inl AttributeError"
    by (rule compute_digest_NotASource)
  then show ?thesis
    by (simp add: Dataset_init_supplied Dataset_init_computed)
qed

theorem source_not_validated_witness:
  "''abc'' \<noteq> [] \<and>
   Dataset_init (NotASource (PyStr ''s3://bucket/key'')) (Some ''iris'') (Some ''abc'') =
     Inr \<lparr>attr_name = Some ''iris'', attr_source = NotASource (PyStr ''s3://bucket/key''),
          attr_digest = ''abc''\<rparr> \<and>
   Dataset_init (NotASource (PyStr ''s3://bucket/key'')) (Some ''iris'') None = Inl AttributeError"
  using source_not_validated [of "''abc''" "NotASource (PyStr ''s3://bucket/key'')" "Some ''iris''"
      "PyStr ''s3://bucket/key''"]
  by simp

section \<open>The round trip of the serialized descriptor\<close>

lemma map_of_set_fields:
  "distinct (map fst fs) \<Longrightarrow>
   map_of (set_fields fs) k = (case map_of fs k of Some v \<Rightarrow> v | None \<Rightarrow> None)"
proof (induction fs rule: set_fields.induct)
  case 1
  then show ?case by simp
next
  case (2 k' fs)
  then have "map_of fs k' = None"
    by (simp add: map_of_eq_None_iff)
  with 2 show ?case by simp
next
  case (3 k' v fs)
  then show ?case by simp
qed

lemma distinct_variant_fields: "distinct (map fst (variant_fields d))"
  by (simp add: variant_fields_def)

lemma map_of_to_dict_variant:
  "k \<notin> {''name'', ''digest'', ''source'', ''source_type''} \<Longrightarrow>
   map_of (descriptor_to_dict d) k = (case map_of (variant_fields d) k of Some v \<Rightarrow> v | None \<Rightarrow> None)"
  by (simp add: descriptor_to_dict_def map_of_set_fields distinct_variant_fields)

lemma from_dict_to_dict:
  "descriptor_from_dict (descriptor_to_dict d) = Inr (d\<lparr>desc_name := Some (desc_name_property d)\<rparr>)"
proof -
  have req: "optional_str (descriptor_to_dict d) ''name'' = Inr (Some (desc_name_property d))"
    "required_str (descriptor_to_dict d) ''digest'' = Inr (desc_digest d)"
    "required_str (descriptor_to_dict d) ''source'' = Inr (to_json (desc_source d))"
    "required_str (descriptor_to_dict d) ''source_type'' = Inr (get_source_type (desc_source d))"
    by (simp_all add: optional_str_def required_str_def descriptor_to_dict_def)
  have var: "map_of (descriptor_to_dict d) ''flavors'' = flavors d"
    "map_of (descriptor_to_dict d) ''signature'' = signature d"
    "map_of (descriptor_to_dict d) ''run_id'' = run_id d"
    "map_of (descriptor_to_dict d) ''model_uuid'' = model_uuid d"
    "map_of (descriptor_to_dict d) ''utc_time_created'' = utc_time_created d"
    "map_of (descriptor_to_dict d) ''mlflow_version'' = mlflow_version d"
    "map_of (descriptor_to_dict d) ''saved_input_example_info'' = saved_input_example_info d"
    "map_of (descriptor_to_dict d) ''metadata'' = metadata d"
    "map_of (descriptor_to_dict d) ''resources'' = resources d"
    "map_of (descriptor_to_dict d) ''prompts'' = prompts d"
    by (simp_all add: map_of_to_dict_variant variant_fields_def)
  show ?thesis
    unfolding descriptor_from_dict_def req var by simp
qed

text \<open>
  What \<open>test_model_uuid\<close> checks: the serialized form binds \<open>model_uuid\<close> to the field,
  and a form without the key loads with the field \<open>None\<close>.
\<close>

lemma to_dict_model_uuid:
  "model_uuid d = Some u \<Longrightarrow> map_of (descriptor_to_dict d) ''model_uuid'' = Some u"
  by (simp add: map_of_to_dict_variant variant_fields_def)

lemma from_dict_without_model_uuid:
  "map_of m ''model_uuid'' = None \<Longrightarrow> descriptor_from_dict m = Inr d \<Longrightarrow> model_uuid d = None"
  by (auto simp: descriptor_from_dict_def split: sum.splits)

text \<open>
  C8. For every descriptor \<open>d\<close>, \<open>from_dict(to_dict(d))\<close> succeeds, and the descriptor it
  returns has the name, the digest, the source and the variant-specific fields (among
  them \<open>model_uuid\<close> and \<open>flavors\<close>) of \<open>d\<close>, and the same serialized form. It need not be
  \<open>d\<close> itself: an absent name comes back as the placeholder.
\<close>

theorem descriptor_round_trip:
  "\<exists>d'. descriptor_from_dict (descriptor_to_dict d) = Inr d' \<and>
        desc_name_property d' = desc_name_property d \<and>
        desc_digest d' = desc_digest d \<and>
        desc_source d' = desc_source d \<and>
        model_uuid d' = model_uuid d \<and>
        flavors d' = flavors d \<and>
        variant_fields d' = variant_fields d \<and>
        descriptor_to_dict d' = descriptor_to_dict d"
proof -
  let ?d' = "d\<lparr>desc_name := Some (desc_name_property d)\<rparr>"
  have nm: "desc_name_property ?d' = desc_name_property d"
    by (simp add: desc_name_property_def)
  have var: "variant_fields ?d' = variant_fields d"
    by (simp add: variant_fields_def)
  have ser: "descriptor_to_dict ?d' = descriptor_to_dict d"
    by (simp add: descriptor_to_dict_def nm var)
  from nm var ser show ?thesis
    by (simp add: from_dict_to_dict)
qed

end
